theory Spec2Isabelle
  imports Main "HOL-Library.Word" "HOL-Library.Sublist"
begin

section \<open>The Senate consensus engine (consensus/senate/consensus.go)\<close>

text \<open>
  A shallow embedding of the header verifier, the preparer, the finalizer and the
  seal-hash serializer of the delegated-proof-of-stake engine. Go values are modelled as
  follows: \<open>uint64\<close> and \<open>int64\<close> are 64-bit words (an \<open>int64\<close> is read with
  \<open>sint\<close>), \<open>common.Hash\<close> is a 256-bit word, \<open>common.Address\<close> a 160-bit
  word, a byte slice a list of 8-bit words, a \<open>*big.Int\<close> an optional integer
  (\<open>None\<close> is the nil pointer). A Go function that returns an error returns a sum
  (\<open>Inl\<close> the error) or an optional error, and a Go panic is the outcome
  \<open>Panics\<close>. Code of the repository that lives outside this file (the snapshot, the
  header-extra codec, RLP, Keccak, signature recovery, the account state) is a field of
  the record \<open>externals\<close>, and the chain reader and the clock are arguments; the
  theorems hold for all of them.
\<close>

subsection \<open>Data\<close>

type_synonym uint64 = "64 word"
type_synonym int64 = "64 word"
type_synonym byte = "8 word"
type_synonym bytes = "byte list"
type_synonym hash = "256 word"
type_synonym address = "160 word"

text \<open>The error values the file returns. \<open>ErrorsNew\<close> is Go's \<open>errors.New\<close>;
  \<open>ErrExternal\<close> stands for the errors that only code outside this file creates.\<close>

datatype error =
    ErrUnknownBlock
  | ErrFutureBlock
  | ErrUnknownAncestor
  | ErrMissingVanity
  | ErrMissingSignature
  | ErrInvalidMixDigest
  | ErrInvalidUncleHash
  | ErrInvalidTimestamp
  | ErrUnauthorized
  | ErrUnclesNotAllowed
  | ErrorsNew string
  | ErrExternal string

text \<open>What a Go panic carries: the argument of \<open>panic(err)\<close> (which may be nil), the
  string of \<open>panic("...")\<close>, or a runtime error (nil dereference, slice bounds,
  division by zero).\<close>

datatype panic_value =
    PanicError "error option"
  | PanicString string
  | PanicRuntime string

datatype 'a outcome = Returns 'a | Panics panic_value

text \<open>Modelled from the spec: the composite root, a struct of eight hashes declared
  outside this file. Go compares structs field by field, which is HOL equality.\<close>

record Root =
  CandidateHash :: hash
  ConfigHash :: hash
  DeclareHash :: hash
  DelegateHash :: hash
  EpochHash :: hash
  MintCntHash :: hash
  ProposalHash :: hash
  VoteHash :: hash

text \<open>Modelled from the spec: \<open>params.SenateConfig\<close>, of which this file reads
  \<open>Period\<close> and \<open>Epoch\<close>.\<close>

record SenateConfig =
  Period :: uint64
  Epoch :: uint64

text \<open>Modelled from the spec: the header-extra payload. This file reads and writes
  \<open>Root\<close>, \<open>Epoch\<close> and \<open>EpochTime\<close>; the remaining fields (validators,
  confirmations and the replay-log lists) are slices, flattened into \<open>Log\<close>, whose
  zero value is the empty list.\<close>

record 'l HeaderExtra =
  Root :: Root
  Epoch :: uint64
  EpochTime :: uint64
  Log :: "'l list"

text \<open>\<open>types.Header\<close>, with the fields in the order \<open>encodeSigHeader\<close> lists
  them.\<close>

record Header =
  ParentHash :: hash
  UncleHash :: hash
  Coinbase :: address
  Root :: hash
  TxHash :: hash
  ReceiptHash :: hash
  Bloom :: "2048 word"
  Difficulty :: "int option"
  Number :: "int option"
  GasLimit :: uint64
  GasUsed :: uint64
  Time :: uint64
  Extra :: bytes
  MixDigest :: hash
  Nonce :: uint64

text \<open>The engine: its genesis configuration, its store and its signature cache.\<close>

record ('db, 'c) Senate =
  config :: SenateConfig
  db :: 'db
  signatures :: 'c

text \<open>The values \<open>rlp.Encode\<close> receives from \<open>encodeSigHeader\<close>, tagged with
  their Go types (\<open>RlpNonce\<close> is the 8-byte \<open>types.BlockNonce\<close>).\<close>

datatype rlp_value =
    RlpHash hash
  | RlpAddress address
  | RlpBloom "2048 word"
  | RlpBigInt "int option"
  | RlpUint64 uint64
  | RlpBytes bytes
  | RlpNonce uint64

text \<open>Modelled from the spec: the framing constants, declared outside this file. The
  vanity is 32 bytes and the seal (an ECDSA signature, \<open>crypto.SignatureLength\<close>) is
  65 bytes; the difficulty is the constant 1.\<close>

definition extraVanity :: nat where
  "extraVanity = 32"

definition extraSeal :: nat where
  "extraSeal = 65"

definition SignatureLength :: nat where
  "SignatureLength = 65"

definition defaultDifficulty :: int where
  "defaultDifficulty = 1"

text \<open>The code this file calls and does not contain. \<open>'s\<close> is a snapshot, \<open>'db\<close>
  the store, \<open>'c\<close> the signature cache, \<open>'st\<close> the account state, \<open>'tx\<close> a
  transaction. The external functions are total: they return a value or an error and do
  not panic. Only \<open>Commit\<close> writes the store. A snapshot pointer that may be nil is
  an optional snapshot. \<open>snapApply\<close> and \<open>snapRoot\<close> are the snapshot's
  methods \<open>apply\<close> and \<open>Root\<close>, \<open>HashString\<close> is \<open>common.Hash.String\<close>, \<open>HeaderHash\<close>
  is \<open>types.Header.Hash\<close> and \<open>ErrorText\<close> is the \<open>Error\<close> method of an error.\<close>

record ('s, 'db, 'c, 'st, 'tx, 'l) externals =
  HashString :: "hash \<Rightarrow> string"
  ErrorText :: "error \<Rightarrow> string"
  HeaderHash :: "Header \<Rightarrow> hash"
  rlpEncode :: "rlp_value list \<Rightarrow> error + bytes"
  Keccak256 :: "bytes \<Rightarrow> hash"
  Ecrecover :: "hash \<Rightarrow> bytes \<Rightarrow> error + bytes"
  sigcacheGet :: "'c \<Rightarrow> hash \<Rightarrow> address option"
  sigcacheAdd :: "'c \<Rightarrow> hash \<Rightarrow> address \<Rightarrow> 'c"
  uncleHash :: hash
  CalcUncleHash :: "Header list \<Rightarrow> hash"
  decodeHeaderExtra :: "Header \<Rightarrow> error + 'l HeaderExtra"
  Encode :: "'l HeaderExtra \<Rightarrow> error + bytes"
  Equal :: "'l HeaderExtra \<Rightarrow> 'l HeaderExtra \<Rightarrow> bool"
  newSnapshot :: "'db \<Rightarrow> error + 's"
  loadSnapshot :: "'db \<Rightarrow> Root \<Rightarrow> error + 's"
  snapApply :: "'s \<Rightarrow> Header \<Rightarrow> 'l HeaderExtra \<Rightarrow> error + 's"
  snapRoot :: "'s \<Rightarrow> error + Root"
  Commit :: "'s \<Rightarrow> Root \<Rightarrow> 'db \<Rightarrow> error option \<times> 'db"
  chainConfigByHash :: "('db, 'c) Senate \<Rightarrow> hash \<Rightarrow> error + SenateConfig"
  chainConfig :: "('db, 'c) Senate \<Rightarrow> Header option \<Rightarrow> error + SenateConfig"
  inTurn :: "('db, 'c) Senate \<Rightarrow> SenateConfig \<Rightarrow> Header option \<Rightarrow> uint64 \<Rightarrow> address \<Rightarrow> bool"
  accumulateRewards :: "SenateConfig \<Rightarrow> 'st \<Rightarrow> Header \<Rightarrow> 'st"
  processTransactions ::
    "SenateConfig \<Rightarrow> 'st \<Rightarrow> Header \<Rightarrow> 's option \<Rightarrow> 'l HeaderExtra \<Rightarrow> 'tx list
       \<Rightarrow> 'st \<times> 's option \<times> 'l HeaderExtra"
  tryElect ::
    "SenateConfig \<Rightarrow> 'st \<Rightarrow> Header \<Rightarrow> 's option \<Rightarrow> 'l HeaderExtra
       \<Rightarrow> error option \<times> 'st \<times> 's option \<times> 'l HeaderExtra"
  IntermediateRoot :: "'st \<Rightarrow> bool \<Rightarrow> hash \<times> 'st"
  IsEIP158 :: "int option \<Rightarrow> bool"

text \<open>\<open>big.Int.Uint64\<close> (the low 64 bits of the absolute value) and
  \<open>big.Int.Int64\<close> (the same, negated for a negative number).\<close>

definition Uint64 :: "int \<Rightarrow> uint64" where
  "Uint64 n = word_of_int \<bar>n\<bar>"

definition Int64 :: "int \<Rightarrow> int64" where
  "Int64 n = (if n < 0 then - word_of_int \<bar>n\<bar> else word_of_int \<bar>n\<bar>)"

subsection \<open>The seal hash\<close>

text \<open>\<open>encodeSigHeader\<close> writes the RLP of the header without the trailing 65 bytes
  of \<open>Extra\<close> to its writer; the model returns the bytes written. The slice
  expression panics when \<open>Extra\<close> is shorter than 65 bytes, before anything is
  encoded; an encoding error is a panic as well.\<close>

definition encodeSigHeader ::
  "('s, 'db, 'c, 'st, 'tx, 'l) externals \<Rightarrow> Header \<Rightarrow> bytes outcome" where
  "encodeSigHeader X header =
     (if length (Extra header) < SignatureLength
      then Panics (PanicRuntime ''slice bounds out of range'')
      else
        (case rlpEncode X
           [RlpHash (ParentHash header),
            RlpHash (UncleHash header),
            RlpAddress (Coinbase header),
            RlpHash (Header.Root header),
            RlpHash (TxHash header),
            RlpHash (ReceiptHash header),
            RlpBloom (Bloom header),
            RlpBigInt (Difficulty header),
            RlpBigInt (Number header),
            RlpUint64 (GasLimit header),
            RlpUint64 (GasUsed header),
            RlpUint64 (Time header),
            RlpBytes (take (length (Extra header) - SignatureLength) (Extra header)),
            RlpHash (MixDigest header),
            RlpNonce (Nonce header)] of
           Inl err \<Rightarrow> Panics (PanicString (''can't encode: '' @ ErrorText X err))
         | Inr b \<Rightarrow> Returns b))"

definition SenateRLP ::
  "('s, 'db, 'c, 'st, 'tx, 'l) externals \<Rightarrow> Header \<Rightarrow> bytes outcome" where
  "SenateRLP X header = encodeSigHeader X header"

definition SealHash ::
  "('s, 'db, 'c, 'st, 'tx, 'l) externals \<Rightarrow> Header \<Rightarrow> hash outcome" where
  "SealHash X header =
     (case encodeSigHeader X header of
        Panics p \<Rightarrow> Panics p
      | Returns b \<Rightarrow> Returns (Keccak256 X b))"

subsection \<open>The diagnostic formatter\<close>

text \<open>\<open>Root2String\<close> is one \<open>fmt.Sprintf\<close> with nine \<open>%s\<close> verbs: the literal
  pieces of the format string and the nine arguments, concatenated in order.\<close>

definition Root2String ::
  "('s, 'db, 'c, 'st, 'tx, 'l) externals \<Rightarrow> Root \<Rightarrow> string" where
  "Root2String X root =
     [CHR 0x0A] @ ''CandidateHash='' @ HashString X (CandidateHash root) @
     '' '' @ [CHR 0x0A] @ ''ConfigHash='' @ HashString X (ConfigHash root) @
     '' '' @ [CHR 0x0A] @ ''DeclareHash='' @ HashString X (DeclareHash root) @
     '' '' @ [CHR 0x0A] @ ''DelegateHash= '' @ HashString X (DelegateHash root) @
     '' '' @ [CHR 0x0A] @ ''CandidateHash='' @ HashString X (CandidateHash root) @
     '' '' @ [CHR 0x0A] @ ''EpochHash='' @ HashString X (EpochHash root) @
     '' '' @ [CHR 0x0A] @ ''MintCntHash='' @ HashString X (MintCntHash root) @
     '' '' @ [CHR 0x0A] @ ''ProposalHash='' @ HashString X (ProposalHash root) @
     '' '' @ [CHR 0x0A] @ ''VoteHash='' @ HashString X (VoteHash root)"

subsection \<open>Signature recovery and the seal check\<close>

text \<open>\<open>ecrecover\<close> answers from the signature cache when it can; otherwise it recovers
  the public key from the last 65 bytes of \<open>Extra\<close>, takes the last 20 bytes of its
  Keccak hash (the low 160 bits of the hash) as the signer and caches it.\<close>

definition ecrecover ::
  "('s, 'db, 'c, 'st, 'tx, 'l) externals \<Rightarrow> Header \<Rightarrow> 'c \<Rightarrow> ((error + address) \<times> 'c) outcome" where
  "ecrecover X header sigcache =
     (let hash = HeaderHash X header in
      case sigcacheGet X sigcache hash of
        Some address \<Rightarrow> Returns (Inr address, sigcache)
      | None \<Rightarrow>
          if length (Extra header) < extraSeal then Returns (Inl ErrMissingSignature, sigcache)
          else
            (let signature = drop (length (Extra header) - extraSeal) (Extra header) in
             case SealHash X header of
               Panics p \<Rightarrow> Panics p
             | Returns sealHash \<Rightarrow>
                 (case Ecrecover X sealHash signature of
                    Inl err \<Rightarrow> Returns (Inl err, sigcache)
                  | Inr pubkey \<Rightarrow>
                      if pubkey = [] then Panics (PanicRuntime ''slice bounds out of range'')
                      else
                        (let signer = (ucast (Keccak256 X (drop 1 pubkey)) :: address) in
                         Returns (Inr signer, sigcacheAdd X sigcache hash signer)))))"

definition verifySeal ::
  "('s, 'db, 'c, 'st, 'tx, 'l) externals \<Rightarrow> ('db, 'c) Senate \<Rightarrow> SenateConfig \<Rightarrow> Header
     \<Rightarrow> Header option \<Rightarrow> (error option \<times> ('db, 'c) Senate) outcome" where
  "verifySeal X senate cfg header parent =
     (case Number header of
        None \<Rightarrow> Panics (PanicRuntime ''nil pointer dereference'')
      | Some n \<Rightarrow>
          if Uint64 n = 0 then Returns (Some ErrUnknownBlock, senate)
          else
            (case ecrecover X header (signatures senate) of
               Panics p \<Rightarrow> Panics p
             | Returns (Inl err, sigcache) \<Rightarrow> Returns (Some err, senate\<lparr>signatures := sigcache\<rparr>)
             | Returns (Inr signer, sigcache) \<Rightarrow>
                 (let senate' = senate\<lparr>signatures := sigcache\<rparr> in
                  if \<not> inTurn X senate' cfg parent (Time header) signer
                  then Returns (Some ErrUnauthorized, senate')
                  else Returns (None, senate'))))"

subsection \<open>Header verification\<close>

text \<open>\<open>chain\<close> is \<open>chain.GetHeader\<close>. The result is the returned error (\<open>None\<close> is
  nil, the header is accepted) and the engine afterwards.\<close>

definition verifyCascadingFields ::
  "('s, 'db, 'c, 'st, 'tx, 'l) externals \<Rightarrow> (hash \<Rightarrow> uint64 \<Rightarrow> Header option) \<Rightarrow> ('db, 'c) Senate
     \<Rightarrow> Header \<Rightarrow> Header list \<Rightarrow> (error option \<times> ('db, 'c) Senate) outcome" where
  "verifyCascadingFields X chain senate header parents =
     (case Number header of
        None \<Rightarrow> Panics (PanicRuntime ''nil pointer dereference'')
      | Some n \<Rightarrow>
     (let number = Uint64 n in
      if number = 0 then Returns (None, senate)
      else
        (case (if length parents > 0 then Some (last parents)
               else chain (ParentHash header) (number - 1)) of
           None \<Rightarrow> Returns (Some ErrUnknownAncestor, senate)
         | Some parent \<Rightarrow>
        (case Number parent of
           None \<Rightarrow> Panics (PanicRuntime ''nil pointer dereference'')
         | Some pn \<Rightarrow>
        if Uint64 pn \<noteq> number - 1 \<or> HeaderHash X parent \<noteq> ParentHash header
        then Returns (Some ErrUnknownAncestor, senate)
        else if Time parent > Time header then Returns (Some ErrInvalidTimestamp, senate)
        else
          (case decodeHeaderExtra X header of
             Inl err \<Rightarrow> Returns (Some err, senate)
           | Inr headerExtra \<Rightarrow>
          (case
             (if Int64 pn = 0 then
                (case newSnapshot X (db senate) of
                   Inl err \<Rightarrow> Inl err
                 | Inr snap \<Rightarrow> Inr (headerExtra, config senate, snap))
              else
                (case decodeHeaderExtra X parent of
                   Inl err \<Rightarrow> Inl err
                 | Inr parentHeaderExtra \<Rightarrow>
                (case chainConfigByHash X senate (ConfigHash (HeaderExtra.Root parentHeaderExtra)) of
                   Inl err \<Rightarrow> Inl err
                 | Inr cfg \<Rightarrow>
                (case loadSnapshot X (db senate) (HeaderExtra.Root parentHeaderExtra) of
                   Inl err \<Rightarrow> Inl err
                 | Inr snap \<Rightarrow> Inr (parentHeaderExtra, cfg, snap)))))
           of
             Inl err \<Rightarrow> Returns (Some err, senate)
           | Inr (parentHeaderExtra, cfg, snap) \<Rightarrow>
          if (HeaderExtra.Epoch headerExtra \<noteq> HeaderExtra.Epoch parentHeaderExtra
                \<or> EpochTime headerExtra \<noteq> EpochTime parentHeaderExtra)
             \<and> (HeaderExtra.Epoch headerExtra \<noteq> HeaderExtra.Epoch parentHeaderExtra + 1
                \<or> EpochTime headerExtra \<noteq> Time header)
          then Returns (Some ErrInvalidTimestamp, senate)
          else
            (case snapApply X snap header headerExtra of
               Inl err \<Rightarrow> Returns (Some err, senate)
             | Inr snap' \<Rightarrow>
            (case snapRoot X snap' of
               Inl err \<Rightarrow> Returns (Some err, senate)
             | Inr root \<Rightarrow>
            if root \<noteq> HeaderExtra.Root headerExtra
            then Returns (Some (ErrorsNew ''invalid trie root''), senate)
            else
              (case verifySeal X senate cfg header (Some parent) of
                 Panics p \<Rightarrow> Panics p
               | Returns (Some err, senate') \<Rightarrow> Returns (Some err, senate')
               | Returns (None, senate') \<Rightarrow>
                   (case Commit X snap' root (db senate') of
                      (Some err, db') \<Rightarrow>
                        Returns (Some (ErrorsNew ''failed to write snapshot''), senate'\<lparr>db := db'\<rparr>)
                    | (None, db') \<Rightarrow> Returns (None, senate'\<lparr>db := db'\<rparr>)))))))))))"

text \<open>\<open>now\<close> is \<open>time.Now().Unix()\<close>, an \<open>int64\<close> that the future-block check
  converts to \<open>uint64\<close> (the same 64 bits).\<close>

definition verifyHeader ::
  "('s, 'db, 'c, 'st, 'tx, 'l) externals \<Rightarrow> (hash \<Rightarrow> uint64 \<Rightarrow> Header option) \<Rightarrow> int64
     \<Rightarrow> ('db, 'c) Senate \<Rightarrow> Header \<Rightarrow> Header list \<Rightarrow> (error option \<times> ('db, 'c) Senate) outcome" where
  "verifyHeader X chain now senate header parents =
     (if Number header = None then Returns (Some ErrUnknownBlock, senate)
      else if Time header > now then Returns (Some ErrFutureBlock, senate)
      else if length (Extra header) < extraVanity then Returns (Some ErrMissingVanity, senate)
      else if length (Extra header) < extraVanity + extraSeal
        then Returns (Some ErrMissingSignature, senate)
      else if MixDigest header \<noteq> 0 then Returns (Some ErrInvalidMixDigest, senate)
      else if UncleHash header \<noteq> uncleHash X then Returns (Some ErrInvalidUncleHash, senate)
      else verifyCascadingFields X chain senate header parents)"

subsection \<open>Preparing a header\<close>

definition CalcDifficulty :: "uint64 \<Rightarrow> Header option \<Rightarrow> int option" where
  "CalcDifficulty time parent = Some defaultDifficulty"

text \<open>The zero value of a \<open>HeaderExtra\<close>, which \<open>var headerExtra HeaderExtra\<close>
  declares.\<close>

definition zeroRoot :: Root where
  "zeroRoot =
     \<lparr>CandidateHash = 0, ConfigHash = 0, DeclareHash = 0, DelegateHash = 0,
      EpochHash = 0, MintCntHash = 0, ProposalHash = 0, VoteHash = 0\<rparr>"

definition zeroHeaderExtra :: "'l HeaderExtra" where
  "zeroHeaderExtra = \<lparr>HeaderExtra.Root = zeroRoot, Epoch = 0, EpochTime = 0, Log = []\<rparr>"

text \<open>\<open>Prepare\<close> changes the header in place, so the model returns the header next to
  the error, also when it returns early. \<open>int64(header.Time) < now\<close> compares signed
  (\<open><s\<close>); \<open>duration/config.Epoch\<close> panics when \<open>config.Epoch\<close> is zero.\<close>

definition Prepare ::
  "('s, 'db, 'c, 'st, 'tx, 'l) externals \<Rightarrow> (hash \<Rightarrow> uint64 \<Rightarrow> Header option) \<Rightarrow> int64
     \<Rightarrow> ('db, 'c) Senate \<Rightarrow> Header \<Rightarrow> (error option \<times> Header) outcome" where
  "Prepare X chain now senate header0 =
     (case Number header0 of
        None \<Rightarrow> Panics (PanicRuntime ''nil pointer dereference'')
      | Some n \<Rightarrow>
     (let header = header0\<lparr>MixDigest := 0, Difficulty := CalcDifficulty 0 None\<rparr>;
          number = Uint64 n
      in
      case chain (ParentHash header) (number - 1) of
        None \<Rightarrow> Returns (Some ErrUnknownAncestor, header)
      | Some parent \<Rightarrow>
     (case
        (if number = 1 then
           (let cfg = config senate;
                t = Time parent + Period cfg;
                t = (if t <s now then now else t);
                header = header\<lparr>Time := t\<rparr>
            in Returns (Inr (header,
                 (zeroHeaderExtra :: 'l HeaderExtra)\<lparr>HeaderExtra.Epoch := 1, EpochTime := Time header\<rparr>)))
         else
           (case decodeHeaderExtra X parent of
              Inl err \<Rightarrow> Returns (Inl (err, header))
            | Inr parentHeaderExtra \<Rightarrow>
           (case chainConfigByHash X senate (ConfigHash (HeaderExtra.Root parentHeaderExtra)) of
              Inl err \<Rightarrow> Returns (Inl (err, header))
            | Inr cfg \<Rightarrow>
           (let t = Time parent + Period cfg;
                t = (if t <s now then now else t);
                header = header\<lparr>Time := t\<rparr>;
                headerExtra = (zeroHeaderExtra :: 'l HeaderExtra)
                   \<lparr>HeaderExtra.Root := HeaderExtra.Root parentHeaderExtra,
                    HeaderExtra.Epoch := HeaderExtra.Epoch parentHeaderExtra,
                    EpochTime := EpochTime parentHeaderExtra\<rparr>;
                duration = Time header - EpochTime parentHeaderExtra
            in
            if SenateConfig.Epoch cfg = 0 then Panics (PanicRuntime ''integer divide by zero'')
            else if duration div SenateConfig.Epoch cfg \<ge> 1 \<and> duration mod SenateConfig.Epoch cfg > 0
            then Returns (Inr (header,
                   headerExtra\<lparr>HeaderExtra.Epoch := HeaderExtra.Epoch parentHeaderExtra + 1,
                               EpochTime := Time header\<rparr>))
            else Returns (Inr (header, headerExtra))))))
      of
        Panics p \<Rightarrow> Panics p
      | Returns (Inl (err, header)) \<Rightarrow> Returns (Some err, header)
      | Returns (Inr (header, headerExtra)) \<Rightarrow>
          (case Encode X headerExtra of
             Inl err \<Rightarrow> Returns (Some err, header)
           | Inr data \<Rightarrow>
               (let extra =
                      (if length (Extra header) < extraVanity
                       then Extra header @ replicate (extraVanity - length (Extra header)) 0
                       else Extra header);
                    extra = take extraVanity extra;
                    extra = extra @ data;
                    extra = extra @ replicate extraSeal 0
                in Returns (None, header\<lparr>Extra := extra\<rparr>))))))"

subsection \<open>Finalizing a block\<close>

text \<open>\<open>Finalize\<close> has no error result: it returns the header and the account state it
  has changed, or panics. In the branch for a height above 1 the source declares a second
  \<open>err\<close> (\<open>parentHeaderExtra, err := ...\<close>), which then also receives the error of
  \<open>loadSnapshot\<close>; the \<open>err\<close> tested after the branch is the outer one, which is nil
  there, so the snapshot pointer is used as \<open>loadSnapshot\<close> left it (nil, \<open>None\<close>,
  after a failure). Decoding the extra of a parent that the chain does not have (a nil
  header) is a nil dereference.\<close>

definition Finalize ::
  "('s, 'db, 'c, 'st, 'tx, 'l) externals \<Rightarrow> (hash \<Rightarrow> uint64 \<Rightarrow> Header option) \<Rightarrow> ('db, 'c) Senate
     \<Rightarrow> Header \<Rightarrow> 'st \<Rightarrow> 'tx list \<Rightarrow> Header list \<Rightarrow> (Header \<times> 'st) outcome" where
  "Finalize X chain senate header state txs uncles =
     (case Number header of
        None \<Rightarrow> Panics (PanicRuntime ''nil pointer dereference'')
      | Some n \<Rightarrow>
     (let number = Uint64 n in
      case decodeHeaderExtra X header of
        Inl err \<Rightarrow> Panics (PanicError (Some err))
      | Inr headerExtra \<Rightarrow>
     (let parent = chain (ParentHash header) (number - 1) in
      case
        (if number \<le> 1 then
           (case newSnapshot X (db senate) of
              Inl err \<Rightarrow> Returns (None, Some err)
            | Inr snap \<Rightarrow> Returns (Some snap, None))
         else
           (case parent of
              None \<Rightarrow> Panics (PanicRuntime ''nil pointer dereference'')
            | Some p \<Rightarrow>
           (case decodeHeaderExtra X p of
              Inl err \<Rightarrow> Panics (PanicError (Some err))
            | Inr parentHeaderExtra \<Rightarrow>
           (case loadSnapshot X (db senate) (HeaderExtra.Root parentHeaderExtra) of
              Inl err \<Rightarrow> Returns (None, None)
            | Inr snap \<Rightarrow> Returns (Some snap, None)))))
      of
        Panics p \<Rightarrow> Panics p
      | Returns (snap, Some err) \<Rightarrow> Panics (PanicError (Some err))
      | Returns (snap, None) \<Rightarrow>
     (case chainConfig X senate parent of
        Inl err \<Rightarrow> Panics (PanicError (Some err))
      | Inr cfg \<Rightarrow>
     (let state = accumulateRewards X cfg state header;
          temp = (zeroHeaderExtra :: 'l HeaderExtra)
             \<lparr>HeaderExtra.Root := HeaderExtra.Root headerExtra,
              HeaderExtra.Epoch := HeaderExtra.Epoch headerExtra,
              EpochTime := EpochTime headerExtra\<rparr>
      in
      case processTransactions X cfg state header snap temp txs of
        (state, snap, temp) \<Rightarrow>
     (case tryElect X cfg state header snap temp of
        (err, state, snap, temp) \<Rightarrow>
     if err \<noteq> None \<or> \<not> Equal X temp headerExtra then Panics (PanicError err)
     else
       (case IntermediateRoot X state (IsEIP158 X (Number header)) of
          (root, state) \<Rightarrow>
            Returns (header\<lparr>Header.Root := root, UncleHash := CalcUncleHash X []\<rparr>, state))))))))"

subsection \<open>Vocabulary of the specification\<close>

text \<open>The parent the verifier checks a header against: the last header of the batch
  when there is one, the chain's header at the parent hash and the previous height
  otherwise.\<close>

definition parentOf ::
  "(hash \<Rightarrow> uint64 \<Rightarrow> Header option) \<Rightarrow> Header \<Rightarrow> Header list \<Rightarrow> Header option" where
  "parentOf chain header parents =
     (if length parents > 0 then Some (last parents)
      else (case Number header of
              None \<Rightarrow> None
            | Some n \<Rightarrow> chain (ParentHash header) (Uint64 n - 1)))"

text \<open>The parent is the one the header names: its height is one less and its hash is
  the header's parent hash.\<close>

definition knownAncestor ::
  "('s, 'db, 'c, 'st, 'tx, 'l) externals \<Rightarrow> Header \<Rightarrow> Header \<Rightarrow> bool" where
  "knownAncestor X header parent =
     (case (Number header, Number parent) of
        (Some n, Some pn) \<Rightarrow> Uint64 pn = Uint64 n - 1 \<and> HeaderHash X parent = ParentHash header
      | _ \<Rightarrow> False)"

definition isGenesis :: "Header \<Rightarrow> bool" where
  "isGenesis parent = (case Number parent of None \<Rightarrow> False | Some pn \<Rightarrow> Int64 pn = 0)"

text \<open>Epoch continuity in the spec's words: the pair of the header's extra equals the
  parent's, or advances the epoch by one with the epoch time set to the header's time.\<close>

definition epochContinuous :: "'l HeaderExtra \<Rightarrow> Header \<Rightarrow> 'l HeaderExtra \<Rightarrow> bool" where
  "epochContinuous parentExtra header extra =
     (HeaderExtra.Epoch extra = HeaderExtra.Epoch parentExtra \<and> EpochTime extra = EpochTime parentExtra
      \<or> HeaderExtra.Epoch extra = HeaderExtra.Epoch parentExtra + 1 \<and> EpochTime extra = Time header)"

text \<open>The composite root in the spec's words: load the snapshot at the parent's declared
  root (a fresh empty snapshot when the parent is the genesis block), apply the header's
  extra to it and take the root.\<close>

definition replayedRoot ::
  "('s, 'db, 'c, 'st, 'tx, 'l) externals \<Rightarrow> ('db, 'c) Senate \<Rightarrow> Header \<Rightarrow> Header \<Rightarrow> 'l HeaderExtra
     \<Rightarrow> error + Root" where
  "replayedRoot X senate parent header extra =
     (case (if isGenesis parent then newSnapshot X (db senate)
            else (case decodeHeaderExtra X parent of
                    Inl err \<Rightarrow> Inl err
                  | Inr parentExtra \<Rightarrow> loadSnapshot X (db senate) (HeaderExtra.Root parentExtra))) of
        Inl err \<Rightarrow> Inl err
      | Inr snap \<Rightarrow>
          (case snapApply X snap header extra of
             Inl err \<Rightarrow> Inl err
           | Inr snap' \<Rightarrow> snapRoot X snap'))"

subsection \<open>A miniature chain\<close>

text \<open>Concrete stand-ins for the external code, on which the theorems below are run. A
  snapshot is its own root, the store is the list of committed roots, the payload of an
  extra is four bytes (epoch, epoch time high and low byte, mint count), the hash of a
  header is its timestamp, and the only validator has address 1, the first byte of its
  seal.\<close>

definition toyEncode :: "unit HeaderExtra \<Rightarrow> error + bytes" where
  "toyEncode ex =
     Inr [ucast (HeaderExtra.Epoch ex), ucast (drop_bit 8 (EpochTime ex)), ucast (EpochTime ex),
          ucast (MintCntHash (HeaderExtra.Root ex))]"

definition toyDecode :: "Header \<Rightarrow> error + unit HeaderExtra" where
  "toyDecode h =
     (case drop extraVanity (take (length (Extra h) - extraSeal) (Extra h)) of
        [e, hi, lo, m] \<Rightarrow>
          Inr \<lparr>HeaderExtra.Root = zeroRoot\<lparr>MintCntHash := ucast m\<rparr>, Epoch = ucast e,
               EpochTime = push_bit 8 (ucast hi) + ucast lo, Log = []\<rparr>
      | _ \<Rightarrow> Inl (ErrExternal ''malformed extra''))"

definition toyX :: "(Root, Root list, (hash \<times> address) list, nat, unit, unit) externals" where
  "toyX =
     \<lparr>HashString = (\<lambda>h. if h = 0 then ''0x0'' else ''0x1''),
      ErrorText = (\<lambda>e. ''error''),
      HeaderHash = (\<lambda>h. ucast (Time h)),
      rlpEncode = (\<lambda>vs. Inr (concat (map (\<lambda>v. case v of RlpBytes b \<Rightarrow> b | _ \<Rightarrow> []) vs))),
      Keccak256 = (\<lambda>b. case b of [] \<Rightarrow> 0 | x # _ \<Rightarrow> ucast x),
      Ecrecover = (\<lambda>h sig. if length sig = 65 then Inr (4 # sig)
                            else Inl (ErrExternal ''invalid signature'')),
      sigcacheGet = (\<lambda>c h. map_of c h),
      sigcacheAdd = (\<lambda>c h a. (h, a) # c),
      uncleHash = 7,
      CalcUncleHash = (\<lambda>us. 7),
      decodeHeaderExtra = toyDecode,
      Encode = toyEncode,
      Equal = (\<lambda>a b. a = b),
      newSnapshot = (\<lambda>d. Inr zeroRoot),
      loadSnapshot = (\<lambda>d r. if r \<in> set d then Inr r else Inl (ErrExternal ''snapshot missing'')),
      snapApply = (\<lambda>s h ex. Inr (s\<lparr>MintCntHash := MintCntHash s + 1\<rparr>)),
      snapRoot = (\<lambda>s. Inr s),
      Commit = (\<lambda>s r d. (None, r # d)),
      chainConfigByHash = (\<lambda>senate h. Inr (config senate)),
      chainConfig = (\<lambda>senate p. Inr (config senate)),
      inTurn = (\<lambda>senate cfg p t signer. signer = 1),
      accumulateRewards = (\<lambda>cfg st h. st + 1),
      processTransactions = (\<lambda>cfg st h s ex txs. (st, s, ex)),
      tryElect = (\<lambda>cfg st h s ex. (None, st, s, ex)),
      IntermediateRoot = (\<lambda>st b. (of_nat st, st)),
      IsEIP158 = (\<lambda>n. True)\<rparr>"

text \<open>A header of the miniature chain: height, time, parent hash and payload; a zero
  vanity and the validator's seal.\<close>

definition toyHeader :: "int \<Rightarrow> uint64 \<Rightarrow> hash \<Rightarrow> bytes \<Rightarrow> Header" where
  "toyHeader n t parentHash payload =
     \<lparr>ParentHash = parentHash, UncleHash = 7, Coinbase = 1, Root = 0, TxHash = 0,
      ReceiptHash = 0, Bloom = 0, Difficulty = Some 1, Number = Some n, GasLimit = 0,
      GasUsed = 0, Time = t, Extra = replicate 32 0 @ payload @ 1 # replicate 64 0,
      MixDigest = 0, Nonce = 0\<rparr>"

text \<open>The engine with Period 3 and Epoch 30, over a given store.\<close>

definition toySenate :: "Root list \<Rightarrow> (Root list, (hash \<times> address) list) Senate" where
  "toySenate d = \<lparr>config = \<lparr>Period = 3, Epoch = 30\<rparr>, db = d, signatures = []\<rparr>"

text \<open>The chain reader over a list of known headers.\<close>

definition toyChain :: "Header list \<Rightarrow> hash \<Rightarrow> uint64 \<Rightarrow> Header option" where
  "toyChain hs parentHash number =
     find (\<lambda>p. HeaderHash toyX p = parentHash \<and> map_option Uint64 (Number p) = Some number) hs"

text \<open>The genesis block at time 1000 and a first block at time 1003 that declares epoch
  1, epoch time 1003 and the root after one minted block.\<close>

definition toyGenesis :: Header where
  "toyGenesis = toyHeader 0 1000 0 [0, 0, 0, 0]"

definition toyBlock1 :: Header where
  "toyBlock1 = toyHeader 1 1003 1000 [1, 3, 235, 1]"

text \<open>The first block again, declaring a root that the replay does not produce.\<close>

definition toyBlock1WrongRoot :: Header where
  "toyBlock1WrongRoot = toyHeader 1 1003 1000 [1, 3, 235, 2]"

text \<open>A first block that declares epoch 7 and epoch time 5; a second block at time 1006
  on top of the first block; the second block declaring epoch 3; the second block with
  its parent's timestamp; and the store after the first block.\<close>

definition toyBlock1OddEpoch :: Header where
  "toyBlock1OddEpoch = toyHeader 1 1003 1000 [7, 0, 5, 1]"

definition toyBlock2 :: Header where
  "toyBlock2 = toyHeader 2 1006 1003 [1, 3, 235, 2]"

definition toyBlock2BadEpoch :: Header where
  "toyBlock2BadEpoch = toyHeader 2 1006 1003 [3, 3, 235, 2]"

definition toyBlock2SameTime :: Header where
  "toyBlock2SameTime = toyHeader 2 1003 1003 [1, 3, 235, 2]"

definition toyStore1 :: "Root list" where
  "toyStore1 = [zeroRoot\<lparr>MintCntHash := 1\<rparr>]"

text \<open>The epoch-crossing scenario: a parent at height 9 with epoch 5, epoch time 1000 and
  time 1027; its child before \<open>Prepare\<close>; the child as a sealed block at time 1030 that
  declares epoch 5 and epoch time 1000; and the store holding the parent's snapshot.\<close>

definition toyParent5 :: Header where
  "toyParent5 = toyHeader 9 1027 1024 [5, 3, 232, 9]"

definition toyChild10 :: Header where
  "toyChild10 = toyHeader 10 0 1027 []"

definition toyChild10Sealed :: Header where
  "toyChild10Sealed = toyHeader 10 1030 1027 [5, 3, 232, 10]"

definition toyStore9 :: "Root list" where
  "toyStore9 = [zeroRoot\<lparr>MintCntHash := 9\<rparr>]"

text \<open>A first block whose extra carries no payload, and a child of it; a genesis block
  whose timestamp is \<open>2 ^ 63\<close>, and a child of it.\<close>

definition toyUndecodable1 :: Header where
  "toyUndecodable1 = toyHeader 1 1003 1000 []"

definition toyChild2 :: Header where
  "toyChild2 = toyHeader 2 0 1003 []"

definition toyLateGenesis :: Header where
  "toyLateGenesis = toyHeader 0 9223372036854775808 0 [0, 0, 0, 0]"

definition toyLateChild :: Header where
  "toyLateChild = toyHeader 1 0 9223372036854775808 []"

text \<open>A header with 64 bytes of extra, and externals whose \<open>newSnapshot\<close> fails.\<close>

definition toyShortExtra :: Header where
  "toyShortExtra = toyBlock1\<lparr>Extra := replicate 64 0\<rparr>"

definition toyNoSnapshotX :: "(Root, Root list, (hash \<times> address) list, nat, unit, unit) externals" where
  "toyNoSnapshotX = toyX\<lparr>newSnapshot := \<lambda>d. Inl (ErrExternal ''snapshot missing'')\<rparr>"

section \<open>Theorems\<close>

subsection \<open>Evaluating the miniature chain\<close>

lemma toyHeader_sel:
  "Number (toyHeader n t p pl) = Some n" "Time (toyHeader n t p pl) = t"
  "ParentHash (toyHeader n t p pl) = p" "MixDigest (toyHeader n t p pl) = 0"
  "UncleHash (toyHeader n t p pl) = 7"
  "Extra (toyHeader n t p pl) = replicate 32 0 @ pl @ 1 # replicate 64 0"
  by (simp_all add: toyHeader_def)

lemma toyX_sel:
  "HeaderHash toyX = (\<lambda>h. ucast (Time h))"
  "decodeHeaderExtra toyX = toyDecode"
  "Encode toyX = toyEncode"
  "newSnapshot toyX = (\<lambda>d. Inr zeroRoot)"
  "loadSnapshot toyX = (\<lambda>d r. if r \<in> set d then Inr r else Inl (ErrExternal ''snapshot missing''))"
  "snapApply toyX = (\<lambda>s h ex. Inr (s\<lparr>MintCntHash := MintCntHash s + 1\<rparr>))"
  "snapRoot toyX = (\<lambda>s. Inr s)"
  "Commit toyX = (\<lambda>s r d. (None, r # d))"
  "chainConfigByHash toyX = (\<lambda>senate h. Inr (config senate))"
  "chainConfig toyX = (\<lambda>senate p. Inr (config senate))"
  "inTurn toyX = (\<lambda>senate cfg p t signer. signer = 1)"
  "uncleHash toyX = 7"
  by (simp_all add: toyX_def)

lemma toyDecode_toyHeader:
  "toyDecode (toyHeader n t p [e, hi, lo, m]) =
     Inr \<lparr>HeaderExtra.Root = zeroRoot\<lparr>MintCntHash := ucast m\<rparr>, Epoch = ucast e,
          EpochTime = push_bit 8 (ucast hi) + ucast lo, Log = []\<rparr>"
  by (simp add: toyDecode_def toyHeader_def extraVanity_def extraSeal_def)

lemma toyDecode_short: "toyDecode (toyHeader n t p []) = Inl (ErrExternal ''malformed extra'')"
  by (simp add: toyDecode_def toyHeader_def extraVanity_def extraSeal_def)

lemma ecrecover_toyHeader:
  "ecrecover toyX (toyHeader n t p [e, hi, lo, m]) [] = Returns (Inr 1, [(ucast t, 1)])"
  by (simp add: ecrecover_def toyX_def toyHeader_def extraSeal_def SealHash_def
        encodeSigHeader_def SignatureLength_def)

lemmas toy_eval =
  toyHeader_sel toyX_sel toyDecode_toyHeader ecrecover_toyHeader toySenate_def toyChain_def
  toyGenesis_def toyBlock1_def Uint64_def Int64_def zeroRoot_def

lemmas toy_eval2 = toy_eval toyBlock1OddEpoch_def toyBlock2_def toyBlock2BadEpoch_def
  toyBlock2SameTime_def toyStore1_def

lemmas toy_eval3 = toy_eval toyParent5_def toyChild10_def toyChild10Sealed_def toyStore9_def
  toyUndecodable1_def toyChild2_def toyLateGenesis_def toyLateChild_def

lemma toyBlock1_accepted:
  "verifyCascadingFields toyX (toyChain [toyGenesis]) (toySenate []) toyBlock1 [] =
     Returns (None, \<lparr>config = \<lparr>Period = 3, Epoch = 30\<rparr>,
                      db = [zeroRoot\<lparr>MintCntHash := 1\<rparr>], signatures = [(1003, 1)]\<rparr>)"
  by (simp add: verifyCascadingFields_def verifySeal_def toy_eval)

lemma toyBlock1OddEpoch_accepted:
  "verifyCascadingFields toyX (toyChain [toyGenesis]) (toySenate []) toyBlock1OddEpoch [] =
     Returns (None, \<lparr>config = \<lparr>Period = 3, Epoch = 30\<rparr>,
                      db = [zeroRoot\<lparr>MintCntHash := 1\<rparr>], signatures = [(1003, 1)]\<rparr>)"
  by (simp add: verifyCascadingFields_def verifySeal_def toy_eval2)

lemma toyBlock2_accepted:
  "verifyCascadingFields toyX (toyChain [toyGenesis, toyBlock1]) (toySenate toyStore1) toyBlock2 [] =
     Returns (None, \<lparr>config = \<lparr>Period = 3, Epoch = 30\<rparr>,
                      db = [zeroRoot\<lparr>MintCntHash := 2\<rparr>, zeroRoot\<lparr>MintCntHash := 1\<rparr>],
                      signatures = [(1006, 1)]\<rparr>)"
  by (simp add: verifyCascadingFields_def verifySeal_def toy_eval2)

lemma toyChild10_prepared:
  "Prepare toyX (toyChain [toyParent5]) 1030 (toySenate toyStore9) toyChild10 =
     Returns (None, toyChild10\<lparr>MixDigest := 0, Difficulty := Some 1, Time := 1030,
                      Extra := replicate 32 0 @ [5, 3, 232, 9] @ replicate 65 0\<rparr>)"
  by (simp add: Prepare_def Let_def toy_eval3 toyEncode_def zeroHeaderExtra_def
        CalcDifficulty_def defaultDifficulty_def extraVanity_def extraSeal_def)

lemma toyChild10Sealed_accepted:
  "verifyCascadingFields toyX (toyChain [toyParent5]) (toySenate toyStore9) toyChild10Sealed [] =
     Returns (None, \<lparr>config = \<lparr>Period = 3, Epoch = 30\<rparr>,
                      db = [zeroRoot\<lparr>MintCntHash := 10\<rparr>, zeroRoot\<lparr>MintCntHash := 9\<rparr>],
                      signatures = [(1030, 1)]\<rparr>)"
  by (simp add: verifyCascadingFields_def verifySeal_def toy_eval3)

lemma toyChild2_not_prepared:
  "Prepare toyX (toyChain [toyUndecodable1]) 1000 (toySenate []) toyChild2 =
     Returns (Some (ErrExternal ''malformed extra''),
              toyChild2\<lparr>MixDigest := 0, Difficulty := Some 1\<rparr>)"
  by (simp add: Prepare_def Let_def toy_eval3 toyDecode_short
        CalcDifficulty_def defaultDifficulty_def)

lemma toyLateChild_prepared:
  "Prepare toyX (toyChain [toyLateGenesis]) 2000 (toySenate []) toyLateChild =
     Returns (None, toyLateChild\<lparr>MixDigest := 0, Difficulty := Some 1, Time := 2000,
                      Extra := replicate 32 0 @ [1, 7, 208, 0] @ replicate 65 0\<rparr>)"
  by (simp add: Prepare_def Let_def toy_eval3 toyEncode_def zeroHeaderExtra_def word_sless_alt
        CalcDifficulty_def defaultDifficulty_def extraVanity_def extraSeal_def)

lemma Finalize_toyUndecodable1:
  "Finalize toyX (toyChain [toyGenesis]) (toySenate []) toyUndecodable1 0 [] [] =
     Panics (PanicError (Some (ErrExternal ''malformed extra'')))"
  by (simp add: Finalize_def Let_def toy_eval3 toyDecode_short)

subsection \<open>Auxiliary facts\<close>

text \<open>What an accepted header has passed, and what the verifier does once the replayed
  root is known.\<close>

lemma vcf_accept_inv:
  assumes "verifyCascadingFields X chain senate h ps = Returns (None, senate')"
    and "Number h = Some n" and "Uint64 n \<noteq> 0"
  shows "\<exists>parent pn ex cfg snap snap' s1 db'.
           parentOf chain h ps = Some parent \<and> Number parent = Some pn
         \<and> Uint64 pn = Uint64 n - 1 \<and> HeaderHash X parent = ParentHash h
         \<and> Time parent \<le> Time h \<and> decodeHeaderExtra X h = Inr ex
         \<and> (Int64 pn = 0 \<and> cfg = config senate \<and> newSnapshot X (db senate) = Inr snap
            \<or> Int64 pn \<noteq> 0 \<and> (\<exists>pex. decodeHeaderExtra X parent = Inr pex
                 \<and> chainConfigByHash X senate (ConfigHash (HeaderExtra.Root pex)) = Inr cfg
                 \<and> loadSnapshot X (db senate) (HeaderExtra.Root pex) = Inr snap
                 \<and> epochContinuous pex h ex))
         \<and> snapApply X snap h ex = Inr snap' \<and> snapRoot X snap' = Inr (HeaderExtra.Root ex)
         \<and> verifySeal X senate cfg h (Some parent) = Returns (None, s1)
         \<and> Commit X snap' (HeaderExtra.Root ex) (db s1) = (None, db')
         \<and> senate' = s1\<lparr>db := db'\<rparr>"
  using assms
  by (fastforce simp: verifyCascadingFields_def parentOf_def Let_def epochContinuous_def
        split: option.splits if_splits sum.splits outcome.splits prod.splits)

lemma vcf_at_root_check:
  assumes "Number h = Some n" and "Uint64 n \<noteq> 0"
    and "parentOf chain h ps = Some parent" and "knownAncestor X h parent"
    and "Time parent \<le> Time h" and "decodeHeaderExtra X h = Inr ex"
    and "isGenesis parent \<and> cfg = config senate \<and> newSnapshot X (db senate) = Inr snap
         \<or> \<not> isGenesis parent \<and> (\<exists>pex. decodeHeaderExtra X parent = Inr pex
                 \<and> chainConfigByHash X senate (ConfigHash (HeaderExtra.Root pex)) = Inr cfg
                 \<and> loadSnapshot X (db senate) (HeaderExtra.Root pex) = Inr snap
                 \<and> epochContinuous pex h ex)"
    and "snapApply X snap h ex = Inr snap'" and "snapRoot X snap' = Inr root"
  shows "verifyCascadingFields X chain senate h ps =
           (if root \<noteq> HeaderExtra.Root ex
            then Returns (Some (ErrorsNew ''invalid trie root''), senate)
            else (case verifySeal X senate cfg h (Some parent) of
                    Panics p \<Rightarrow> Panics p
                  | Returns (Some err, senate') \<Rightarrow> Returns (Some err, senate')
                  | Returns (None, senate') \<Rightarrow>
                      (case Commit X snap' root (db senate') of
                         (Some err, db') \<Rightarrow>
                           Returns (Some (ErrorsNew ''failed to write snapshot''), senate'\<lparr>db := db'\<rparr>)
                       | (None, db') \<Rightarrow> Returns (None, senate'\<lparr>db := db'\<rparr>))))"
  using assms
  by (auto simp: verifyCascadingFields_def parentOf_def Let_def epochContinuous_def
        knownAncestor_def isGenesis_def
        split: option.splits if_splits)

lemma verifySeal_load_irrelevant:
  "verifySeal (X\<lparr>loadSnapshot := load, chainConfigByHash := byHash\<rparr>) senate cfg h p
     = verifySeal X senate cfg h p"
proof -
  have "ecrecover (X\<lparr>loadSnapshot := load, chainConfigByHash := byHash\<rparr>) h c = ecrecover X h c" for c
    by (simp add: ecrecover_def SealHash_def encodeSigHeader_def Let_def
          cong: option.case_cong if_cong outcome.case_cong sum.case_cong)
  then show ?thesis
    by (simp add: verifySeal_def Let_def
          cong: option.case_cong if_cong outcome.case_cong sum.case_cong prod.case_cong)
qed

lemma sint_eq_uint_of_small: "uint w < 2 ^ 63 \<Longrightarrow> sint w = uint w" for w :: "64 word"
proof -
  assume "uint w < 2 ^ 63"
  moreover have "0 \<le> uint w" by simp
  ultimately have "- (2 ^ 63) \<le> uint w \<and> uint w < 2 ^ 63" by linarith
  then have "signed_take_bit 63 (uint w) = uint w"
    by (simp only: signed_take_bit_int_eq_self_iff)
  then show ?thesis by (simp add: sint_uint)
qed

lemma sint_eq_uint_of_nonneg: "0 \<le> sint w \<Longrightarrow> sint w = uint w" for w :: "64 word"
proof (rule sint_eq_uint_of_small, rule ccontr)
  assume nonneg: "0 \<le> sint w" and "\<not> uint w < 2 ^ 63"
  then have "signed_take_bit 63 (uint w) \<le> uint w - 2 ^ Suc 63"
    by (intro signed_take_bit_int_less_eq) simp
  moreover have "uint w < 2 ^ Suc 63"
    using uint_lt2p [of w] by simp
  moreover have "sint w = signed_take_bit 63 (uint w)"
    by (simp add: sint_uint)
  ultimately have "sint w < 0"
    by linarith
  with nonneg show False by simp
qed

lemma clampTime:
  fixes a b now :: "64 word"
  assumes "uint a + uint b < 2 ^ 63"
  shows "uint (if a + b <s now then now else a + b) = max (uint a + uint b) (sint now)"
proof -
  let ?t = "a + b"
  have ut: "uint ?t = uint a + uint b"
    using assms by (simp add: uint_add_lem [THEN iffD1])
  have st: "sint ?t = uint ?t"
    using assms ut by (intro sint_eq_uint_of_small) simp
  show ?thesis
  proof (cases "?t <s now")
    case True
    then have lt: "sint ?t < sint now" by (simp add: word_sless_alt)
    moreover have "0 \<le> uint ?t" by simp
    ultimately have "0 \<le> sint now" using st by linarith
    then have "sint now = uint now" by (rule sint_eq_uint_of_nonneg)
    with True lt st ut show ?thesis by simp
  next
    case False
    then have "sint now \<le> sint ?t" by (simp add: word_sless_alt)
    with False st ut show ?thesis by simp
  qed
qed

lemma Prepare_first_block:
  assumes "Number h = Some n" and "chain (ParentHash h) (Uint64 n - 1) = Some parent"
    and "Uint64 n = 1"
  shows "\<exists>err h'. Prepare X chain now senate h = Returns (err, h')
           \<and> Time h' = (if Time parent + Period (config senate) <s now then now
                         else Time parent + Period (config senate))"
  using assms by (simp add: Prepare_def Let_def split: sum.split)

lemma Prepare_later_block:
  assumes "Number h = Some n" and "chain (ParentHash h) (Uint64 n - 1) = Some parent"
    and "Uint64 n \<noteq> 1" and "decodeHeaderExtra X parent = Inr pex"
    and "chainConfigByHash X senate (ConfigHash (HeaderExtra.Root pex)) = Inr cfg"
    and "SenateConfig.Epoch cfg \<noteq> 0"
  shows "\<exists>err h'. Prepare X chain now senate h = Returns (err, h')
           \<and> Time h' = (if Time parent + Period cfg <s now then now
                         else Time parent + Period cfg)"
  using assms by (simp add: Prepare_def Let_def split: sum.split)

lemma Prepare_zero_epoch:
  assumes "Number h = Some n" and "chain (ParentHash h) (Uint64 n - 1) = Some parent"
    and "Uint64 n \<noteq> 1" and "decodeHeaderExtra X parent = Inr pex"
    and "chainConfigByHash X senate (ConfigHash (HeaderExtra.Root pex)) = Inr cfg"
    and "SenateConfig.Epoch cfg = 0"
  shows "Prepare X chain now senate h = Panics (PanicRuntime ''integer divide by zero'')"
  using assms by (simp add: Prepare_def Let_def)

lemma sublist_skip: "sublist xs ys \<Longrightarrow> sublist xs (zs @ ys)"
  by (metis sublist_append_leftI sublist_order.order.trans)

subsection \<open>The root check of the verifier\<close>

text \<open>C1. A non-genesis header that \<open>verifyCascadingFields\<close> accepts declares, in its
  decoded extra, the root obtained by replaying the extra on the parent's snapshot (a fresh
  one when the parent is the genesis block). When the header passes the checks before the
  replay and the replayed root differs from the declared one, the result is the error
  "invalid trie root" and the engine, its store included, is unchanged: nothing is
  committed.\<close>

theorem verifyCascadingFields_checks_root:
  assumes "Number h = Some n" and "Uint64 n \<noteq> 0"
  shows "(\<forall>senate'. verifyCascadingFields X chain senate h ps = Returns (None, senate') \<longrightarrow>
            (\<exists>parent ex. parentOf chain h ps = Some parent \<and> decodeHeaderExtra X h = Inr ex
               \<and> replayedRoot X senate parent h ex = Inr (HeaderExtra.Root ex)))
       \<and> (\<forall>parent ex root.
            parentOf chain h ps = Some parent \<and> knownAncestor X h parent \<and> Time parent \<le> Time h
            \<and> decodeHeaderExtra X h = Inr ex
            \<and> (isGenesis parent
                 \<or> (\<exists>pex cfg. decodeHeaderExtra X parent = Inr pex
                      \<and> chainConfigByHash X senate (ConfigHash (HeaderExtra.Root pex)) = Inr cfg
                      \<and> epochContinuous pex h ex))
            \<and> replayedRoot X senate parent h ex = Inr root \<and> root \<noteq> HeaderExtra.Root ex
            \<longrightarrow> verifyCascadingFields X chain senate h ps
                  = Returns (Some (ErrorsNew ''invalid trie root''), senate))"
proof (intro conjI allI impI)
  fix senate'
  assume acc: "verifyCascadingFields X chain senate h ps = Returns (None, senate')"
  from vcf_accept_inv [OF acc assms]
  show "\<exists>parent ex. parentOf chain h ps = Some parent \<and> decodeHeaderExtra X h = Inr ex
               \<and> replayedRoot X senate parent h ex = Inr (HeaderExtra.Root ex)"
    by (auto simp: replayedRoot_def isGenesis_def)
next
  fix parent ex root
  assume H: "parentOf chain h ps = Some parent \<and> knownAncestor X h parent \<and> Time parent \<le> Time h
            \<and> decodeHeaderExtra X h = Inr ex
            \<and> (isGenesis parent
                 \<or> (\<exists>pex cfg. decodeHeaderExtra X parent = Inr pex
                      \<and> chainConfigByHash X senate (ConfigHash (HeaderExtra.Root pex)) = Inr cfg
                      \<and> epochContinuous pex h ex))
            \<and> replayedRoot X senate parent h ex = Inr root \<and> root \<noteq> HeaderExtra.Root ex"
  then obtain cfg snap snap' where
      base: "isGenesis parent \<and> cfg = config senate \<and> newSnapshot X (db senate) = Inr snap
         \<or> \<not> isGenesis parent \<and> (\<exists>pex. decodeHeaderExtra X parent = Inr pex
                 \<and> chainConfigByHash X senate (ConfigHash (HeaderExtra.Root pex)) = Inr cfg
                 \<and> loadSnapshot X (db senate) (HeaderExtra.Root pex) = Inr snap
                 \<and> epochContinuous pex h ex)"
    and app: "snapApply X snap h ex = Inr snap'" and rt: "snapRoot X snap' = Inr root"
    by (cases "isGenesis parent") (auto simp: replayedRoot_def split: sum.splits)
  from H have "verifyCascadingFields X chain senate h ps =
           (if root \<noteq> HeaderExtra.Root ex
            then Returns (Some (ErrorsNew ''invalid trie root''), senate)
            else (case verifySeal X senate cfg h (Some parent) of
                    Panics p \<Rightarrow> Panics p
                  | Returns (Some err, senate') \<Rightarrow> Returns (Some err, senate')
                  | Returns (None, senate') \<Rightarrow>
                      (case Commit X snap' root (db senate') of
                         (Some err, db') \<Rightarrow>
                           Returns (Some (ErrorsNew ''failed to write snapshot''), senate'\<lparr>db := db'\<rparr>)
                       | (None, db') \<Rightarrow> Returns (None, senate'\<lparr>db := db'\<rparr>))))"
    by (intro vcf_at_root_check [OF assms _ _ _ _ base app rt]) auto
  with H show "verifyCascadingFields X chain senate h ps
                  = Returns (Some (ErrorsNew ''invalid trie root''), senate)"
    by simp
qed

theorem verifyCascadingFields_checks_root_witness:
  "Number toyBlock1 = Some 1 \<and> Uint64 1 \<noteq> 0
   \<and> verifyCascadingFields toyX (toyChain [toyGenesis]) (toySenate []) toyBlock1 [] =
       Returns (None, \<lparr>config = \<lparr>Period = 3, Epoch = 30\<rparr>,
                        db = [zeroRoot\<lparr>MintCntHash := 1\<rparr>], signatures = [(1003, 1)]\<rparr>)
   \<and> (\<exists>parent ex. parentOf (toyChain [toyGenesis]) toyBlock1 [] = Some parent
          \<and> decodeHeaderExtra toyX toyBlock1 = Inr ex
          \<and> replayedRoot toyX (toySenate []) parent toyBlock1 ex = Inr (HeaderExtra.Root ex))
   \<and> replayedRoot toyX (toySenate []) toyGenesis toyBlock1WrongRoot
         \<lparr>HeaderExtra.Root = zeroRoot\<lparr>MintCntHash := 2\<rparr>, Epoch = 1, EpochTime = 1003, Log = []\<rparr>
       = Inr (zeroRoot\<lparr>MintCntHash := 1\<rparr>)
   \<and> verifyCascadingFields toyX (toyChain [toyGenesis]) (toySenate []) toyBlock1WrongRoot [] =
       Returns (Some (ErrorsNew ''invalid trie root''), toySenate [])"
proof -
  have n: "Number toyBlock1 = Some 1" and n': "Number toyBlock1WrongRoot = Some 1"
    and nz: "Uint64 1 \<noteq> 0"
    by (simp_all add: toy_eval toyBlock1WrongRoot_def)
  have replay: "replayedRoot toyX (toySenate []) toyGenesis toyBlock1WrongRoot
         \<lparr>HeaderExtra.Root = zeroRoot\<lparr>MintCntHash := 2\<rparr>, Epoch = 1, EpochTime = 1003, Log = []\<rparr>
       = Inr (zeroRoot\<lparr>MintCntHash := 1\<rparr>)"
    by (simp add: replayedRoot_def isGenesis_def toy_eval)
  have hyps: "parentOf (toyChain [toyGenesis]) toyBlock1WrongRoot [] = Some toyGenesis
      \<and> knownAncestor toyX toyBlock1WrongRoot toyGenesis
      \<and> Time toyGenesis \<le> Time toyBlock1WrongRoot
      \<and> decodeHeaderExtra toyX toyBlock1WrongRoot
           = Inr \<lparr>HeaderExtra.Root = zeroRoot\<lparr>MintCntHash := 2\<rparr>, Epoch = 1, EpochTime = 1003, Log = []\<rparr>
      \<and> isGenesis toyGenesis"
    by (simp add: parentOf_def knownAncestor_def isGenesis_def toy_eval toyBlock1WrongRoot_def)
  have differs: "zeroRoot\<lparr>MintCntHash := 1\<rparr>
      \<noteq> HeaderExtra.Root \<lparr>HeaderExtra.Root = zeroRoot\<lparr>MintCntHash := 2\<rparr>, Epoch = 1, EpochTime = 1003, Log = []\<rparr>"
    by (simp add: zeroRoot_def)
  from verifyCascadingFields_checks_root [OF n nz, of toyX "toyChain [toyGenesis]" "toySenate []" "[]"] toyBlock1_accepted
  have part1: "\<exists>parent ex. parentOf (toyChain [toyGenesis]) toyBlock1 [] = Some parent
          \<and> decodeHeaderExtra toyX toyBlock1 = Inr ex
          \<and> replayedRoot toyX (toySenate []) parent toyBlock1 ex = Inr (HeaderExtra.Root ex)"
    by blast
  from verifyCascadingFields_checks_root [OF n' nz, of toyX "toyChain [toyGenesis]" "toySenate []" "[]"] hyps replay differs
  have part2: "verifyCascadingFields toyX (toyChain [toyGenesis]) (toySenate []) toyBlock1WrongRoot [] =
       Returns (Some (ErrorsNew ''invalid trie root''), toySenate [])"
    by blast
  from n nz toyBlock1_accepted part1 replay part2 show ?thesis by simp
qed

subsection \<open>The epoch at an exact boundary\<close>

text \<open>C2, as the code has it. Take Period 3 and Epoch 30 and a parent with Epoch 5,
  EpochTime 1000 and Time 1027. \<open>Prepare\<close>, with the clock not past 1030, sets the
  header's time to 1030 and encodes an extra with Epoch 5 and EpochTime 1000: the duration
  30 is a multiple of the epoch length, and the epoch advances only when the remainder is
  positive. A child with time 1030 that declares Epoch 5 and EpochTime 1000 is accepted by
  \<open>verifyCascadingFields\<close> once its root, its seal and the commit are right.\<close>

theorem Prepare_keeps_epoch_at_exact_boundary:
  assumes "Number h = Some n" and "Uint64 n \<noteq> 1"
    and "chain (ParentHash h) (Uint64 n - 1) = Some parent" and "Time parent = 1027"
    and "decodeHeaderExtra X parent = Inr pex"
    and "HeaderExtra.Epoch pex = 5" and "EpochTime pex = 1000"
    and "chainConfigByHash X senate (ConfigHash (HeaderExtra.Root pex)) = Inr cfg"
    and "Period cfg = 3" and "SenateConfig.Epoch cfg = 30"
    and "\<not> 1030 <s now"
  shows "(\<forall>data.
            Encode X \<lparr>HeaderExtra.Root = HeaderExtra.Root pex, Epoch = 5, EpochTime = 1000, Log = []\<rparr>
              = Inr data
            \<longrightarrow> Prepare X chain now senate h =
                  Returns (None,
                    h\<lparr>MixDigest := 0, Difficulty := Some 1, Time := 1030,
                      Extra := take 32 (Extra h @ replicate (32 - length (Extra h)) 0) @ data
                               @ replicate 65 0\<rparr>))
       \<and> (\<forall>c m ex snap snap' s1 db'.
            Number c = Some m \<and> Uint64 m \<noteq> 0 \<and> parentOf chain c [] = Some parent
            \<and> \<not> isGenesis parent \<and> knownAncestor X c parent \<and> Time c = 1030
            \<and> decodeHeaderExtra X c = Inr ex
            \<and> HeaderExtra.Epoch ex = 5 \<and> EpochTime ex = 1000
            \<and> loadSnapshot X (db senate) (HeaderExtra.Root pex) = Inr snap
            \<and> snapApply X snap c ex = Inr snap' \<and> snapRoot X snap' = Inr (HeaderExtra.Root ex)
            \<and> verifySeal X senate cfg c (Some parent) = Returns (None, s1)
            \<and> Commit X snap' (HeaderExtra.Root ex) (db s1) = (None, db')
            \<longrightarrow> verifyCascadingFields X chain senate c [] = Returns (None, s1\<lparr>db := db'\<rparr>))"
proof (intro conjI allI impI)
  fix data
  assume enc: "Encode X \<lparr>HeaderExtra.Root = HeaderExtra.Root pex, Epoch = 5, EpochTime = 1000, Log = []\<rparr>
              = Inr data"
  have t: "Time parent + Period cfg = 1030"
    using assms by simp
  have ex: "(zeroHeaderExtra :: 'f HeaderExtra)
      \<lparr>HeaderExtra.Root := HeaderExtra.Root pex, HeaderExtra.Epoch := 5, EpochTime := 1000\<rparr>
      = \<lparr>HeaderExtra.Root = HeaderExtra.Root pex, Epoch = 5, EpochTime = 1000, Log = []\<rparr>"
    by (simp add: zeroHeaderExtra_def)
  show "Prepare X chain now senate h =
                  Returns (None,
                    h\<lparr>MixDigest := 0, Difficulty := Some 1, Time := 1030,
                      Extra := take 32 (Extra h @ replicate (32 - length (Extra h)) 0) @ data
                               @ replicate 65 0\<rparr>)"
    using assms enc
    by (simp add: Prepare_def Let_def t zeroHeaderExtra_def CalcDifficulty_def defaultDifficulty_def
          extraVanity_def extraSeal_def)
next
  fix c m ex snap snap' s1 db'
  assume H: "Number c = Some m \<and> Uint64 m \<noteq> 0 \<and> parentOf chain c [] = Some parent
            \<and> \<not> isGenesis parent \<and> knownAncestor X c parent \<and> Time c = 1030
            \<and> decodeHeaderExtra X c = Inr ex
            \<and> HeaderExtra.Epoch ex = 5 \<and> EpochTime ex = 1000
            \<and> loadSnapshot X (db senate) (HeaderExtra.Root pex) = Inr snap
            \<and> snapApply X snap c ex = Inr snap' \<and> snapRoot X snap' = Inr (HeaderExtra.Root ex)
            \<and> verifySeal X senate cfg c (Some parent) = Returns (None, s1)
            \<and> Commit X snap' (HeaderExtra.Root ex) (db s1) = (None, db')"
  then have base: "isGenesis parent \<and> cfg = config senate \<and> newSnapshot X (db senate) = Inr snap
         \<or> \<not> isGenesis parent \<and> (\<exists>pex. decodeHeaderExtra X parent = Inr pex
                 \<and> chainConfigByHash X senate (ConfigHash (HeaderExtra.Root pex)) = Inr cfg
                 \<and> loadSnapshot X (db senate) (HeaderExtra.Root pex) = Inr snap
                 \<and> epochContinuous pex c ex)"
    using assms by (auto simp: epochContinuous_def)
  have tm: "Time parent \<le> Time c"
    using H assms by simp
  from H vcf_at_root_check [OF _ _ _ _ tm _ base, of m chain "[]" snap' "HeaderExtra.Root ex"]
  show "verifyCascadingFields X chain senate c [] = Returns (None, s1\<lparr>db := db'\<rparr>)"
    by simp
qed

text \<open>The claim C2 as stated fails in both halves: \<open>Prepare\<close> yields Epoch 5 and
  EpochTime 1000 for the child at time 1030, and the verifier accepts the child that
  declares Epoch 5.\<close>

theorem Prepare_keeps_epoch_at_exact_boundary_counterexample:
  "config (toySenate toyStore9) = \<lparr>Period = 3, Epoch = 30\<rparr>
   \<and> Time toyParent5 = 1027
   \<and> decodeHeaderExtra toyX toyParent5
       = Inr \<lparr>HeaderExtra.Root = zeroRoot\<lparr>MintCntHash := 9\<rparr>, Epoch = 5, EpochTime = 1000, Log = []\<rparr>
   \<and> Prepare toyX (toyChain [toyParent5]) 1030 (toySenate toyStore9) toyChild10 =
       Returns (None, toyChild10\<lparr>MixDigest := 0, Difficulty := Some 1, Time := 1030,
                        Extra := replicate 32 0 @ [5, 3, 232, 9] @ replicate 65 0\<rparr>)
   \<and> decodeHeaderExtra toyX
         (toyChild10\<lparr>MixDigest := 0, Difficulty := Some 1, Time := 1030,
                        Extra := replicate 32 0 @ [5, 3, 232, 9] @ replicate 65 0\<rparr>)
       = Inr \<lparr>HeaderExtra.Root = zeroRoot\<lparr>MintCntHash := 9\<rparr>, Epoch = 5, EpochTime = 1000, Log = []\<rparr>
   \<and> Time toyChild10Sealed = 1030
   \<and> decodeHeaderExtra toyX toyChild10Sealed
       = Inr \<lparr>HeaderExtra.Root = zeroRoot\<lparr>MintCntHash := 10\<rparr>, Epoch = 5, EpochTime = 1000, Log = []\<rparr>
   \<and> verifyCascadingFields toyX (toyChain [toyParent5]) (toySenate toyStore9) toyChild10Sealed [] =
       Returns (None, \<lparr>config = \<lparr>Period = 3, Epoch = 30\<rparr>,
                      db = [zeroRoot\<lparr>MintCntHash := 10\<rparr>, zeroRoot\<lparr>MintCntHash := 9\<rparr>],
                      signatures = [(1030, 1)]\<rparr>)"
  by (simp add: toyChild10_prepared toyChild10Sealed_accepted)
     (simp add: toy_eval3 toyDecode_def extraVanity_def extraSeal_def)

theorem Prepare_keeps_epoch_at_exact_boundary_witness:
  "Number toyChild10 = Some 10 \<and> Uint64 10 \<noteq> 1
   \<and> toyChain [toyParent5] (ParentHash toyChild10) (Uint64 10 - 1) = Some toyParent5
   \<and> Time toyParent5 = 1027
   \<and> decodeHeaderExtra toyX toyParent5
       = Inr \<lparr>HeaderExtra.Root = zeroRoot\<lparr>MintCntHash := 9\<rparr>, Epoch = 5, EpochTime = 1000, Log = []\<rparr>
   \<and> chainConfigByHash toyX (toySenate toyStore9) 0 = Inr \<lparr>Period = 3, Epoch = 30\<rparr>
   \<and> \<not> (1030 :: int64) <s 1030
   \<and> Prepare toyX (toyChain [toyParent5]) 1030 (toySenate toyStore9) toyChild10 =
       Returns (None, toyChild10\<lparr>MixDigest := 0, Difficulty := Some 1, Time := 1030,
                        Extra := replicate 32 0 @ [5, 3, 232, 9] @ replicate 65 0\<rparr>)
   \<and> verifyCascadingFields toyX (toyChain [toyParent5]) (toySenate toyStore9) toyChild10Sealed [] =
       Returns (None, \<lparr>config = \<lparr>Period = 3, Epoch = 30\<rparr>,
                      db = [zeroRoot\<lparr>MintCntHash := 10\<rparr>, zeroRoot\<lparr>MintCntHash := 9\<rparr>],
                      signatures = [(1030, 1)]\<rparr>)"
proof -
  let ?pex = "\<lparr>HeaderExtra.Root = zeroRoot\<lparr>MintCntHash := 9\<rparr>, Epoch = 5, EpochTime = 1000,
               Log = [] :: unit list\<rparr>"
  let ?ex = "\<lparr>HeaderExtra.Root = zeroRoot\<lparr>MintCntHash := 10\<rparr>, Epoch = 5, EpochTime = 1000,
              Log = [] :: unit list\<rparr>"
  let ?cfg = "\<lparr>Period = 3, SenateConfig.Epoch = 30\<rparr>"
  let ?s1 = "\<lparr>config = ?cfg, db = toyStore9, signatures = [(1030 :: hash, 1 :: address)]\<rparr>"
  have n: "Number toyChild10 = Some 10" and n1: "Uint64 10 \<noteq> 1"
    and par: "toyChain [toyParent5] (ParentHash toyChild10) (Uint64 10 - 1) = Some toyParent5"
    and tp: "Time toyParent5 = 1027"
    and dec: "decodeHeaderExtra toyX toyParent5 = Inr ?pex"
    and ep: "HeaderExtra.Epoch ?pex = 5" and et: "EpochTime ?pex = 1000"
    and cfg: "chainConfigByHash toyX (toySenate toyStore9) (ConfigHash (HeaderExtra.Root ?pex)) = Inr ?cfg"
    and pd: "Period ?cfg = 3" and el: "SenateConfig.Epoch ?cfg = 30"
    and now: "\<not> (1030 :: int64) <s 1030"
    by (simp_all add: toy_eval3)
  note inst = Prepare_keeps_epoch_at_exact_boundary [where h = toyChild10 and n = 10 and chain = "toyChain [toyParent5]"
      and parent = toyParent5 and X = toyX and pex = ?pex and senate = "toySenate toyStore9"
      and cfg = ?cfg and now = 1030, OF n n1 par tp dec ep et cfg pd el now]
  have enc: "Encode toyX \<lparr>HeaderExtra.Root = HeaderExtra.Root ?pex, Epoch = 5, EpochTime = 1000, Log = []\<rparr>
      = Inr [5, 3, 232, 9]"
    by (simp add: toy_eval3 toyEncode_def)
  from inst enc
  have prep: "Prepare toyX (toyChain [toyParent5]) 1030 (toySenate toyStore9) toyChild10 =
       Returns (None, toyChild10\<lparr>MixDigest := 0, Difficulty := Some 1, Time := 1030,
                        Extra := take 32 (Extra toyChild10 @ replicate (32 - length (Extra toyChild10)) 0)
                                 @ [5, 3, 232, 9] @ replicate 65 0\<rparr>)"
    by blast
  have child: "Number toyChild10Sealed = Some 10 \<and> Uint64 10 \<noteq> 0
      \<and> parentOf (toyChain [toyParent5]) toyChild10Sealed [] = Some toyParent5
      \<and> \<not> isGenesis toyParent5 \<and> knownAncestor toyX toyChild10Sealed toyParent5
      \<and> Time toyChild10Sealed = 1030
      \<and> decodeHeaderExtra toyX toyChild10Sealed = Inr ?ex
      \<and> HeaderExtra.Epoch ?ex = 5 \<and> EpochTime ?ex = 1000
      \<and> loadSnapshot toyX (db (toySenate toyStore9)) (HeaderExtra.Root ?pex)
          = Inr (zeroRoot\<lparr>MintCntHash := 9\<rparr>)
      \<and> snapApply toyX (zeroRoot\<lparr>MintCntHash := 9\<rparr>) toyChild10Sealed ?ex
          = Inr (zeroRoot\<lparr>MintCntHash := 10\<rparr>)
      \<and> snapRoot toyX (zeroRoot\<lparr>MintCntHash := 10\<rparr>) = Inr (HeaderExtra.Root ?ex)
      \<and> verifySeal toyX (toySenate toyStore9) ?cfg toyChild10Sealed (Some toyParent5)
          = Returns (None, ?s1)
      \<and> Commit toyX (zeroRoot\<lparr>MintCntHash := 10\<rparr>) (HeaderExtra.Root ?ex) (db ?s1)
          = (None, [zeroRoot\<lparr>MintCntHash := 10\<rparr>, zeroRoot\<lparr>MintCntHash := 9\<rparr>])"
    by (simp add: parentOf_def isGenesis_def knownAncestor_def verifySeal_def toy_eval3)
  from inst child
  have ver: "verifyCascadingFields toyX (toyChain [toyParent5]) (toySenate toyStore9) toyChild10Sealed [] =
       Returns (None, ?s1\<lparr>db := [zeroRoot\<lparr>MintCntHash := 10\<rparr>, zeroRoot\<lparr>MintCntHash := 9\<rparr>]\<rparr>)"
    by blast
  have cfg0: "chainConfigByHash toyX (toySenate toyStore9) 0 = Inr ?cfg"
    by (simp add: toy_eval3)
  from n n1 par tp dec cfg0 now prep ver show ?thesis
    by (simp add: toy_eval3)
qed

subsection \<open>Epoch continuity\<close>

text \<open>C3, for a parent that is not the genesis block. If \<open>verifyCascadingFields\<close>
  accepts the header, the pair (Epoch, EpochTime) of its extra equals the parent's pair
  or is the parent's epoch plus one with the header's time. A header whose pair is
  neither is never accepted, and it is rejected with \<open>ErrInvalidTimestamp\<close> once
  the parent is the known ancestor, is not younger than the header, and its config and
  snapshot load. (For a genesis parent the check compares the header's extra with
  itself.)\<close>

theorem verifyCascadingFields_epoch_continuity:
  assumes "Number h = Some n" and "Uint64 n \<noteq> 0"
    and "parentOf chain h ps = Some parent" and "\<not> isGenesis parent"
    and "decodeHeaderExtra X h = Inr ex" and "decodeHeaderExtra X parent = Inr pex"
  shows "(\<forall>senate'. verifyCascadingFields X chain senate h ps = Returns (None, senate')
            \<longrightarrow> epochContinuous pex h ex)
       \<and> (\<not> epochContinuous pex h ex \<longrightarrow>
            (\<forall>senate'. verifyCascadingFields X chain senate h ps \<noteq> Returns (None, senate'))
          \<and> (knownAncestor X h parent \<and> Time parent \<le> Time h
               \<and> (\<exists>cfg. chainConfigByHash X senate (ConfigHash (HeaderExtra.Root pex)) = Inr cfg)
               \<and> (\<exists>snap. loadSnapshot X (db senate) (HeaderExtra.Root pex) = Inr snap)
              \<longrightarrow> verifyCascadingFields X chain senate h ps
                    = Returns (Some ErrInvalidTimestamp, senate)))"
proof -
  have acc: "epochContinuous pex h ex"
    if "verifyCascadingFields X chain senate h ps = Returns (None, senate')" for senate'
    using vcf_accept_inv [OF that assms(1,2)] assms(3-) by (auto simp: isGenesis_def)
  have rej: "verifyCascadingFields X chain senate h ps = Returns (Some ErrInvalidTimestamp, senate)"
    if "\<not> epochContinuous pex h ex" "knownAncestor X h parent" "Time parent \<le> Time h"
      "chainConfigByHash X senate (ConfigHash (HeaderExtra.Root pex)) = Inr cfg"
      "loadSnapshot X (db senate) (HeaderExtra.Root pex) = Inr snap" for cfg snap
    using that assms
    by (auto simp: verifyCascadingFields_def parentOf_def Let_def epochContinuous_def
          knownAncestor_def isGenesis_def split: option.splits if_splits)
  from acc rej show ?thesis by blast
qed

text \<open>The claim C3 as stated fails for a genesis parent: the first block declares the pair
  (7, 5), the genesis block decodes to (0, 0), and the block is accepted. It also fails in
  the error it names: the second block declaring epoch 3 is rejected with the snapshot's
  error when the parent's snapshot is missing from the store.\<close>

theorem verifyCascadingFields_epoch_continuity_counterexample:
  "verifyCascadingFields toyX (toyChain [toyGenesis]) (toySenate []) toyBlock1OddEpoch [] =
     Returns (None, \<lparr>config = \<lparr>Period = 3, Epoch = 30\<rparr>,
                      db = [zeroRoot\<lparr>MintCntHash := 1\<rparr>], signatures = [(1003, 1)]\<rparr>)
   \<and> parentOf (toyChain [toyGenesis]) toyBlock1OddEpoch [] = Some toyGenesis
   \<and> decodeHeaderExtra toyX toyGenesis
       = Inr \<lparr>HeaderExtra.Root = zeroRoot, Epoch = 0, EpochTime = 0, Log = []\<rparr>
   \<and> decodeHeaderExtra toyX toyBlock1OddEpoch
       = Inr \<lparr>HeaderExtra.Root = zeroRoot\<lparr>MintCntHash := 1\<rparr>, Epoch = 7, EpochTime = 5, Log = []\<rparr>
   \<and> \<not> epochContinuous \<lparr>HeaderExtra.Root = zeroRoot, Epoch = 0, EpochTime = 0, Log = []\<rparr>
         toyBlock1OddEpoch
         \<lparr>HeaderExtra.Root = zeroRoot\<lparr>MintCntHash := 1\<rparr>, Epoch = 7, EpochTime = 5, Log = [] :: unit list\<rparr>
   \<and> verifyCascadingFields toyX (toyChain [toyGenesis, toyBlock1]) (toySenate []) toyBlock2BadEpoch [] =
       Returns (Some (ErrExternal ''snapshot missing''), toySenate [])
   \<and> parentOf (toyChain [toyGenesis, toyBlock1]) toyBlock2BadEpoch [] = Some toyBlock1
   \<and> decodeHeaderExtra toyX toyBlock1
       = Inr \<lparr>HeaderExtra.Root = zeroRoot\<lparr>MintCntHash := 1\<rparr>, Epoch = 1, EpochTime = 1003, Log = []\<rparr>
   \<and> decodeHeaderExtra toyX toyBlock2BadEpoch
       = Inr \<lparr>HeaderExtra.Root = zeroRoot\<lparr>MintCntHash := 2\<rparr>, Epoch = 3, EpochTime = 1003, Log = []\<rparr>
   \<and> \<not> epochContinuous
         \<lparr>HeaderExtra.Root = zeroRoot\<lparr>MintCntHash := 1\<rparr>, Epoch = 1, EpochTime = 1003, Log = []\<rparr>
         toyBlock2BadEpoch
         \<lparr>HeaderExtra.Root = zeroRoot\<lparr>MintCntHash := 2\<rparr>, Epoch = 3, EpochTime = 1003, Log = [] :: unit list\<rparr>"
  by (simp add: toyBlock1OddEpoch_accepted)
     (simp add: verifyCascadingFields_def parentOf_def epochContinuous_def toy_eval2)

theorem verifyCascadingFields_epoch_continuity_witness:
  "Number toyBlock2 = Some 2 \<and> Uint64 2 \<noteq> 0
   \<and> parentOf (toyChain [toyGenesis, toyBlock1]) toyBlock2 [] = Some toyBlock1
   \<and> \<not> isGenesis toyBlock1
   \<and> verifyCascadingFields toyX (toyChain [toyGenesis, toyBlock1]) (toySenate toyStore1) toyBlock2 [] =
       Returns (None, \<lparr>config = \<lparr>Period = 3, Epoch = 30\<rparr>,
                      db = [zeroRoot\<lparr>MintCntHash := 2\<rparr>, zeroRoot\<lparr>MintCntHash := 1\<rparr>],
                      signatures = [(1006, 1)]\<rparr>)
   \<and> epochContinuous
         \<lparr>HeaderExtra.Root = zeroRoot\<lparr>MintCntHash := 1\<rparr>, Epoch = 1, EpochTime = 1003, Log = []\<rparr>
         toyBlock2
         \<lparr>HeaderExtra.Root = zeroRoot\<lparr>MintCntHash := 2\<rparr>, Epoch = 1, EpochTime = 1003, Log = [] :: unit list\<rparr>
   \<and> \<not> epochContinuous
         \<lparr>HeaderExtra.Root = zeroRoot\<lparr>MintCntHash := 1\<rparr>, Epoch = 1, EpochTime = 1003, Log = []\<rparr>
         toyBlock2BadEpoch
         \<lparr>HeaderExtra.Root = zeroRoot\<lparr>MintCntHash := 2\<rparr>, Epoch = 3, EpochTime = 1003, Log = [] :: unit list\<rparr>
   \<and> verifyCascadingFields toyX (toyChain [toyGenesis, toyBlock1]) (toySenate toyStore1)
         toyBlock2BadEpoch [] =
       Returns (Some ErrInvalidTimestamp, toySenate toyStore1)"
proof -
  let ?chain = "toyChain [toyGenesis, toyBlock1]"
  let ?pex = "\<lparr>HeaderExtra.Root = zeroRoot\<lparr>MintCntHash := 1\<rparr>, Epoch = 1, EpochTime = 1003,
               Log = [] :: unit list\<rparr>"
  let ?ex = "\<lparr>HeaderExtra.Root = zeroRoot\<lparr>MintCntHash := 2\<rparr>, Epoch = 1, EpochTime = 1003,
              Log = [] :: unit list\<rparr>"
  let ?bad = "\<lparr>HeaderExtra.Root = zeroRoot\<lparr>MintCntHash := 2\<rparr>, Epoch = 3, EpochTime = 1003,
               Log = [] :: unit list\<rparr>"
  have n: "Number toyBlock2 = Some 2" "Number toyBlock2BadEpoch = Some 2" and nz: "Uint64 2 \<noteq> 0"
    by (simp_all add: toy_eval2)
  have par: "parentOf ?chain toyBlock2 [] = Some toyBlock1"
      "parentOf ?chain toyBlock2BadEpoch [] = Some toyBlock1"
    and ng: "\<not> isGenesis toyBlock1"
    by (simp_all add: parentOf_def isGenesis_def toy_eval2)
  have dec: "decodeHeaderExtra toyX toyBlock1 = Inr ?pex"
      "decodeHeaderExtra toyX toyBlock2 = Inr ?ex"
      "decodeHeaderExtra toyX toyBlock2BadEpoch = Inr ?bad"
    by (simp_all add: toy_eval2)
  have rest: "knownAncestor toyX toyBlock2BadEpoch toyBlock1"
      "Time toyBlock1 \<le> Time toyBlock2BadEpoch"
      "chainConfigByHash toyX (toySenate toyStore1) (ConfigHash (HeaderExtra.Root ?pex))
         = Inr \<lparr>Period = 3, Epoch = 30\<rparr>"
      "loadSnapshot toyX (db (toySenate toyStore1)) (HeaderExtra.Root ?pex)
         = Inr (zeroRoot\<lparr>MintCntHash := 1\<rparr>)"
    by (simp_all add: knownAncestor_def toy_eval2)
  have discont: "\<not> epochContinuous ?pex toyBlock2BadEpoch ?bad"
    by (simp add: epochContinuous_def toy_eval2)
  from verifyCascadingFields_epoch_continuity [OF n(1) nz par(1) ng dec(2) dec(1), where senate = "toySenate toyStore1"]
    toyBlock2_accepted
  have cont: "epochContinuous ?pex toyBlock2 ?ex"
    by blast
  from verifyCascadingFields_epoch_continuity [OF n(2) nz par(2) ng dec(3) dec(1), where senate = "toySenate toyStore1"]
    discont rest
  have rej: "verifyCascadingFields toyX ?chain (toySenate toyStore1) toyBlock2BadEpoch [] =
       Returns (Some ErrInvalidTimestamp, toySenate toyStore1)"
    by blast
  from n nz par ng toyBlock2_accepted cont discont rej show ?thesis by simp
qed

subsection \<open>Timestamps of parent and child\<close>

text \<open>C4. The header must be strictly younger than its parent, and the source comments
  its check with "Ensure that the block's timestamp isn't too close to it's parent"; the
  check is \<open>parent.Time > header.Time\<close>, so a header with exactly its parent's
  timestamp passes it. Here the second block carries the timestamp 1003 of the first
  block and is accepted and committed.\<close>

theorem verifyCascadingFields_accepts_equal_time:
  "Time toyBlock2SameTime = Time toyBlock1
   \<and> parentOf (toyChain [toyGenesis, toyBlock1]) toyBlock2SameTime [] = Some toyBlock1
   \<and> verifyCascadingFields toyX (toyChain [toyGenesis, toyBlock1]) (toySenate toyStore1)
         toyBlock2SameTime [] =
       Returns (None, \<lparr>config = \<lparr>Period = 3, Epoch = 30\<rparr>,
                      db = [zeroRoot\<lparr>MintCntHash := 2\<rparr>, zeroRoot\<lparr>MintCntHash := 1\<rparr>],
                      signatures = [(1003, 1)]\<rparr>)"
  by (simp add: verifyCascadingFields_def verifySeal_def parentOf_def toy_eval2)

theorem verifyCascadingFields_accepts_equal_time_witness:
  "verifyCascadingFields toyX (toyChain [toyGenesis, toyBlock1]) (toySenate toyStore1)
         toyBlock2SameTime []
     \<noteq> Returns (Some ErrInvalidTimestamp, toySenate toyStore1)"
  using verifyCascadingFields_accepts_equal_time by simp

subsection \<open>The seal hash does not depend on the seal\<close>

text \<open>C5. Two headers whose \<open>Extra\<close> fields are at least 65 bytes long, and which agree
  on every other field and on \<open>Extra\<close> without its last 65 bytes, have the same seal
  hash (and \<open>SealHash\<close> panics on one exactly when it panics on the other).\<close>

theorem SealHash_independent_of_seal:
  assumes "65 \<le> length (Extra h1)" and "65 \<le> length (Extra h2)"
    and "ParentHash h1 = ParentHash h2" and "UncleHash h1 = UncleHash h2"
    and "Coinbase h1 = Coinbase h2" and "Header.Root h1 = Header.Root h2"
    and "TxHash h1 = TxHash h2" and "ReceiptHash h1 = ReceiptHash h2"
    and "Bloom h1 = Bloom h2" and "Difficulty h1 = Difficulty h2"
    and "Number h1 = Number h2" and "GasLimit h1 = GasLimit h2"
    and "GasUsed h1 = GasUsed h2" and "Time h1 = Time h2"
    and "MixDigest h1 = MixDigest h2" and "Nonce h1 = Nonce h2"
    and "take (length (Extra h1) - 65) (Extra h1) = take (length (Extra h2) - 65) (Extra h2)"
  shows "SealHash X h1 = SealHash X h2"
  using assms by (simp add: SealHash_def encodeSigHeader_def SignatureLength_def)

theorem SealHash_independent_of_seal_witness:
  "65 \<le> length (Extra toyBlock1)
   \<and> 65 \<le> length (Extra (toyBlock1\<lparr>Extra := replicate 32 0 @ [1, 3, 235, 1] @ 2 # replicate 64 0\<rparr>))
   \<and> Extra toyBlock1 \<noteq> Extra (toyBlock1\<lparr>Extra := replicate 32 0 @ [1, 3, 235, 1] @ 2 # replicate 64 0\<rparr>)
   \<and> SealHash toyX toyBlock1
       = SealHash toyX (toyBlock1\<lparr>Extra := replicate 32 0 @ [1, 3, 235, 1] @ 2 # replicate 64 0\<rparr>)"
  using SealHash_independent_of_seal
    [of toyBlock1 "toyBlock1\<lparr>Extra := replicate 32 0 @ [1, 3, 235, 1] @ 2 # replicate 64 0\<rparr>" toyX]
  by (simp add: toyBlock1_def toyHeader_def)

subsection \<open>The time of a prepared header\<close>

text \<open>C6, as the code has it. When \<open>Prepare\<close> reaches the assignment (the parent is
  found and, above height 1, its extra decodes and its config is found) and
  \<open>parent.Time + config.Period\<close> is below \<open>2 ^ 63\<close>, the header it returns has
  \<open>Time = max(parent.Time + config.Period, now)\<close>. The one exception is a config with
  \<open>Epoch = 0\<close> above height 1, where the epoch computation panics on the division.\<close>

theorem Prepare_sets_Time:
  assumes "Number h = Some n"
    and "chain (ParentHash h) (Uint64 n - 1) = Some parent"
    and "Uint64 n = 1 \<and> cfg = config senate
         \<or> Uint64 n \<noteq> 1 \<and> (\<exists>pex. decodeHeaderExtra X parent = Inr pex
              \<and> chainConfigByHash X senate (ConfigHash (HeaderExtra.Root pex)) = Inr cfg)"
    and "uint (Time parent) + uint (Period cfg) < 2 ^ 63"
  shows "Uint64 n \<noteq> 1 \<and> SenateConfig.Epoch cfg = 0
           \<and> Prepare X chain now senate h = Panics (PanicRuntime ''integer divide by zero'')
         \<or> (\<exists>err h'. Prepare X chain now senate h = Returns (err, h')
              \<and> uint (Time h') = max (uint (Time parent) + uint (Period cfg)) (sint now))"
proof -
  note clamp = clampTime [OF assms(4), of now]
  from assms(3) consider
      (first) "Uint64 n = 1" "cfg = config senate"
    | (later) pex where "Uint64 n \<noteq> 1" "decodeHeaderExtra X parent = Inr pex"
        "chainConfigByHash X senate (ConfigHash (HeaderExtra.Root pex)) = Inr cfg"
    by blast
  then show ?thesis
  proof cases
    case first
    from Prepare_first_block [where chain = chain and X = X and now = now and senate = senate,
        OF assms(1,2) first(1)] first(2) clamp
    show ?thesis by auto
  next
    case later
    show ?thesis
    proof (cases "SenateConfig.Epoch cfg = 0")
      case True
      with Prepare_zero_epoch [where chain = chain and now = now, OF assms(1,2) later] later(1) show ?thesis by simp
    next
      case False
      from Prepare_later_block [where chain = chain and now = now, OF assms(1,2) later False] clamp
      show ?thesis by auto
    qed
  qed
qed

text \<open>The claim C6 as stated fails where \<open>Prepare\<close> returns before the assignment (the
  parent's extra does not decode: the time stays 0, not 1006), and where the sum reaches
  \<open>2 ^ 63\<close> (the comparison is made on \<open>int64\<close>: the time becomes 2000, below its
  parent's).\<close>

theorem Prepare_sets_Time_counterexample:
  "Number toyChild2 = Some 2
   \<and> toyChain [toyUndecodable1] (ParentHash toyChild2) (Uint64 2 - 1) = Some toyUndecodable1
   \<and> Prepare toyX (toyChain [toyUndecodable1]) 1000 (toySenate []) toyChild2 =
       Returns (Some (ErrExternal ''malformed extra''),
                toyChild2\<lparr>MixDigest := 0, Difficulty := Some 1\<rparr>)
   \<and> uint (Time (toyChild2\<lparr>MixDigest := 0, Difficulty := Some 1\<rparr>)) = 0
   \<and> max (uint (Time toyUndecodable1) + uint (Period (config (toySenate [])))) (sint (1000 :: int64))
       = 1006
   \<and> Number toyLateChild = Some 1
   \<and> toyChain [toyLateGenesis] (ParentHash toyLateChild) (Uint64 1 - 1) = Some toyLateGenesis
   \<and> Prepare toyX (toyChain [toyLateGenesis]) 2000 (toySenate []) toyLateChild =
       Returns (None, toyLateChild\<lparr>MixDigest := 0, Difficulty := Some 1, Time := 2000,
                        Extra := replicate 32 0 @ [1, 7, 208, 0] @ replicate 65 0\<rparr>)
   \<and> max (uint (Time toyLateGenesis) + uint (Period (config (toySenate [])))) (sint (2000 :: int64))
       = 9223372036854775811"
  by (simp add: toyChild2_not_prepared toyLateChild_prepared)
     (simp add: toy_eval3)

theorem Prepare_sets_Time_witness:
  "Number toyChild10 = Some 10
   \<and> toyChain [toyParent5] (ParentHash toyChild10) (Uint64 10 - 1) = Some toyParent5
   \<and> Uint64 10 \<noteq> 1
   \<and> decodeHeaderExtra toyX toyParent5
       = Inr \<lparr>HeaderExtra.Root = zeroRoot\<lparr>MintCntHash := 9\<rparr>, Epoch = 5, EpochTime = 1000, Log = []\<rparr>
   \<and> chainConfigByHash toyX (toySenate toyStore9) 0 = Inr \<lparr>Period = 3, Epoch = 30\<rparr>
   \<and> uint (Time toyParent5) + uint (Period \<lparr>Period = 3, Epoch = 30\<rparr>) < 2 ^ 63
   \<and> Prepare toyX (toyChain [toyParent5]) 1029 (toySenate toyStore9) toyChild10 =
       Returns (None, toyChild10\<lparr>MixDigest := 0, Difficulty := Some 1, Time := 1030,
                        Extra := replicate 32 0 @ [5, 3, 232, 9] @ replicate 65 0\<rparr>)
   \<and> (\<exists>err h'. Prepare toyX (toyChain [toyParent5]) 1029 (toySenate toyStore9) toyChild10
                   = Returns (err, h')
          \<and> uint (Time h') = max (uint (Time toyParent5) + 3) (sint (1029 :: int64)))
   \<and> (\<exists>err h'. Prepare toyX (toyChain [toyParent5]) 5000 (toySenate toyStore9) toyChild10
                   = Returns (err, h')
          \<and> uint (Time h') = 5000)"
proof -
  let ?pex = "\<lparr>HeaderExtra.Root = zeroRoot\<lparr>MintCntHash := 9\<rparr>, Epoch = 5, EpochTime = 1000,
               Log = [] :: unit list\<rparr>"
  let ?cfg = "\<lparr>Period = 3, SenateConfig.Epoch = 30\<rparr>"
  have n: "Number toyChild10 = Some 10"
    and par: "toyChain [toyParent5] (ParentHash toyChild10) (Uint64 10 - 1) = Some toyParent5"
    and n1: "Uint64 10 \<noteq> 1"
    and dec: "decodeHeaderExtra toyX toyParent5 = Inr ?pex"
    and cfg: "chainConfigByHash toyX (toySenate toyStore9) (ConfigHash (HeaderExtra.Root ?pex)) = Inr ?cfg"
    and cfg0: "chainConfigByHash toyX (toySenate toyStore9) 0 = Inr ?cfg"
    and small: "uint (Time toyParent5) + uint (Period ?cfg) < 2 ^ 63"
    and nz: "SenateConfig.Epoch ?cfg \<noteq> 0"
    by (simp_all add: toy_eval3)
  from n1 dec cfg
  have how: "Uint64 10 = 1 \<and> ?cfg = config (toySenate toyStore9)
         \<or> Uint64 10 \<noteq> 1 \<and> (\<exists>pex. decodeHeaderExtra toyX toyParent5 = Inr pex
              \<and> chainConfigByHash toyX (toySenate toyStore9) (ConfigHash (HeaderExtra.Root pex)) = Inr ?cfg)"
    by blast
  note inst = Prepare_sets_Time [where h = toyChild10 and n = 10 and chain = "toyChain [toyParent5]"
      and parent = toyParent5 and X = toyX and senate = "toySenate toyStore9" and cfg = ?cfg,
      OF n par how small]
  have early: "\<exists>err h'. Prepare toyX (toyChain [toyParent5]) 1029 (toySenate toyStore9) toyChild10
                   = Returns (err, h')
          \<and> uint (Time h') = max (uint (Time toyParent5) + 3) (sint (1029 :: int64))"
    using inst [of 1029] nz by simp
  have late: "\<exists>err h'. Prepare toyX (toyChain [toyParent5]) 5000 (toySenate toyStore9) toyChild10
                   = Returns (err, h')
          \<and> uint (Time h') = 5000"
    using inst [of 5000] nz by (simp add: toy_eval3)
  have run: "Prepare toyX (toyChain [toyParent5]) 1029 (toySenate toyStore9) toyChild10 =
       Returns (None, toyChild10\<lparr>MixDigest := 0, Difficulty := Some 1, Time := 1030,
                        Extra := replicate 32 0 @ [5, 3, 232, 9] @ replicate 65 0\<rparr>)"
    by (simp add: Prepare_def Let_def toy_eval3 toyEncode_def zeroHeaderExtra_def word_sless_alt
        CalcDifficulty_def defaultDifficulty_def extraVanity_def extraSeal_def)
  from n par n1 dec cfg0 small run early late show ?thesis
    by simp
qed

subsection \<open>Panics and returned errors\<close>

text \<open>C7, as the code has it. \<open>SenateRLP\<close> and \<open>SealHash\<close> panic on a header whose
  \<open>Extra\<close> is shorter than 65 bytes. \<open>Finalize\<close>, which has no error result, panics
  with the error when the header's extra does not decode, when (up to height 1) the fresh
  snapshot cannot be built, and when (above height 1) the parent's extra does not decode.
  \<open>verifyCascadingFields\<close> returns a decoding failure and a snapshot-loading failure as
  its error.\<close>

theorem panics_and_returned_errors:
  "(length (Extra h) < 65 \<longrightarrow>
      SenateRLP X h = Panics (PanicRuntime ''slice bounds out of range'')
      \<and> SealHash X h = Panics (PanicRuntime ''slice bounds out of range''))
   \<and> (\<forall>n e. Number h = Some n \<and> decodeHeaderExtra X h = Inl e \<longrightarrow>
         Finalize X chain senate h st txs uncles = Panics (PanicError (Some e)))
   \<and> (\<forall>n ex e. Number h = Some n \<and> Uint64 n \<le> 1 \<and> decodeHeaderExtra X h = Inr ex
           \<and> newSnapshot X (db senate) = Inl e \<longrightarrow>
         Finalize X chain senate h st txs uncles = Panics (PanicError (Some e)))
   \<and> (\<forall>n ex p e. Number h = Some n \<and> 1 < Uint64 n \<and> decodeHeaderExtra X h = Inr ex
           \<and> chain (ParentHash h) (Uint64 n - 1) = Some p \<and> decodeHeaderExtra X p = Inl e \<longrightarrow>
         Finalize X chain senate h st txs uncles = Panics (PanicError (Some e)))
   \<and> (\<forall>n parent e. Number h = Some n \<and> Uint64 n \<noteq> 0 \<and> parentOf chain h ps = Some parent
           \<and> knownAncestor X h parent \<and> Time parent \<le> Time h
           \<and> decodeHeaderExtra X h = Inl e \<longrightarrow>
         verifyCascadingFields X chain senate h ps = Returns (Some e, senate))
   \<and> (\<forall>n parent ex pex cfg e. Number h = Some n \<and> Uint64 n \<noteq> 0
           \<and> parentOf chain h ps = Some parent
           \<and> knownAncestor X h parent \<and> Time parent \<le> Time h
           \<and> decodeHeaderExtra X h = Inr ex \<and> \<not> isGenesis parent
           \<and> decodeHeaderExtra X parent = Inr pex
           \<and> chainConfigByHash X senate (ConfigHash (HeaderExtra.Root pex)) = Inr cfg
           \<and> loadSnapshot X (db senate) (HeaderExtra.Root pex) = Inl e \<longrightarrow>
         verifyCascadingFields X chain senate h ps = Returns (Some e, senate))"
proof (intro conjI allI impI)
  assume "length (Extra h) < 65"
  then show "SenateRLP X h = Panics (PanicRuntime ''slice bounds out of range'')"
    and "SealHash X h = Panics (PanicRuntime ''slice bounds out of range'')"
    by (simp_all add: SenateRLP_def SealHash_def encodeSigHeader_def SignatureLength_def)
next
  fix n e assume "Number h = Some n \<and> decodeHeaderExtra X h = Inl e"
  then show "Finalize X chain senate h st txs uncles = Panics (PanicError (Some e))"
    by (simp add: Finalize_def Let_def)
next
  fix n ex e
  assume "Number h = Some n \<and> Uint64 n \<le> 1 \<and> decodeHeaderExtra X h = Inr ex
           \<and> newSnapshot X (db senate) = Inl e"
  then show "Finalize X chain senate h st txs uncles = Panics (PanicError (Some e))"
    by (simp add: Finalize_def Let_def)
next
  fix n ex p e
  assume "Number h = Some n \<and> 1 < Uint64 n \<and> decodeHeaderExtra X h = Inr ex
           \<and> chain (ParentHash h) (Uint64 n - 1) = Some p \<and> decodeHeaderExtra X p = Inl e"
  then show "Finalize X chain senate h st txs uncles = Panics (PanicError (Some e))"
    by (simp add: Finalize_def Let_def not_le [symmetric])
next
  fix n parent e
  assume "Number h = Some n \<and> Uint64 n \<noteq> 0 \<and> parentOf chain h ps = Some parent
           \<and> knownAncestor X h parent \<and> Time parent \<le> Time h
           \<and> decodeHeaderExtra X h = Inl e"
  then show "verifyCascadingFields X chain senate h ps = Returns (Some e, senate)"
    by (auto simp: verifyCascadingFields_def parentOf_def Let_def knownAncestor_def
          split: option.splits if_splits)
next
  fix n parent ex pex cfg e
  assume "Number h = Some n \<and> Uint64 n \<noteq> 0
           \<and> parentOf chain h ps = Some parent
           \<and> knownAncestor X h parent \<and> Time parent \<le> Time h
           \<and> decodeHeaderExtra X h = Inr ex \<and> \<not> isGenesis parent
           \<and> decodeHeaderExtra X parent = Inr pex
           \<and> chainConfigByHash X senate (ConfigHash (HeaderExtra.Root pex)) = Inr cfg
           \<and> loadSnapshot X (db senate) (HeaderExtra.Root pex) = Inl e"
  then show "verifyCascadingFields X chain senate h ps = Returns (Some e, senate)"
    by (auto simp: verifyCascadingFields_def parentOf_def Let_def knownAncestor_def isGenesis_def
          split: option.splits if_splits)
qed

text \<open>The claim C7 as stated fails in \<open>Finalize\<close>: a header whose extra does not
  decode, and a snapshot that cannot be built, are panics.\<close>

theorem panics_and_returned_errors_counterexample:
  "Number toyUndecodable1 = Some 1
   \<and> decodeHeaderExtra toyX toyUndecodable1 = Inl (ErrExternal ''malformed extra'')
   \<and> Finalize toyX (toyChain [toyGenesis]) (toySenate []) toyUndecodable1 0 [] [] =
       Panics (PanicError (Some (ErrExternal ''malformed extra'')))
   \<and> decodeHeaderExtra toyNoSnapshotX toyBlock1
       = Inr \<lparr>HeaderExtra.Root = zeroRoot\<lparr>MintCntHash := 1\<rparr>, Epoch = 1, EpochTime = 1003, Log = []\<rparr>
   \<and> newSnapshot toyNoSnapshotX (db (toySenate [])) = Inl (ErrExternal ''snapshot missing'')
   \<and> Finalize toyNoSnapshotX (toyChain [toyGenesis]) (toySenate []) toyBlock1 0 [] [] =
       Panics (PanicError (Some (ErrExternal ''snapshot missing'')))"
  by (simp add: Finalize_toyUndecodable1)
     (simp add: Finalize_def Let_def toy_eval3 toyDecode_short toyNoSnapshotX_def)

theorem panics_and_returned_errors_witness:
  "length (Extra toyShortExtra) < 65
   \<and> SenateRLP toyX toyShortExtra = Panics (PanicRuntime ''slice bounds out of range'')
   \<and> SealHash toyX toyShortExtra = Panics (PanicRuntime ''slice bounds out of range'')
   \<and> Finalize toyX (toyChain [toyGenesis]) (toySenate []) toyUndecodable1 0 [] [] =
       Panics (PanicError (Some (ErrExternal ''malformed extra'')))
   \<and> Finalize toyNoSnapshotX (toyChain [toyGenesis]) (toySenate []) toyBlock1 0 [] [] =
       Panics (PanicError (Some (ErrExternal ''snapshot missing'')))
   \<and> Finalize toyX (toyChain [toyUndecodable1]) (toySenate []) toyBlock2 0 [] [] =
       Panics (PanicError (Some (ErrExternal ''malformed extra'')))
   \<and> verifyCascadingFields toyX (toyChain [toyGenesis]) (toySenate []) toyUndecodable1 [] =
       Returns (Some (ErrExternal ''malformed extra''), toySenate [])
   \<and> verifyCascadingFields toyX (toyChain [toyGenesis, toyBlock1]) (toySenate []) toyBlock2 [] =
       Returns (Some (ErrExternal ''snapshot missing''), toySenate [])"
proof -
  let ?ex1 = "\<lparr>HeaderExtra.Root = zeroRoot\<lparr>MintCntHash := 1\<rparr>, Epoch = 1, EpochTime = 1003,
               Log = [] :: unit list\<rparr>"
  let ?ex2 = "\<lparr>HeaderExtra.Root = zeroRoot\<lparr>MintCntHash := 2\<rparr>, Epoch = 1, EpochTime = 1003,
               Log = [] :: unit list\<rparr>"
  let ?bad = "ErrExternal ''malformed extra''"
  let ?missing = "ErrExternal ''snapshot missing''"
  have short: "length (Extra toyShortExtra) < 65"
    by (simp add: toyShortExtra_def)
  from panics_and_returned_errors [of toyShortExtra toyX] short
  have c1: "SenateRLP toyX toyShortExtra = Panics (PanicRuntime ''slice bounds out of range'')
      \<and> SealHash toyX toyShortExtra = Panics (PanicRuntime ''slice bounds out of range'')"
    by blast
  have "Number toyUndecodable1 = Some 1 \<and> decodeHeaderExtra toyX toyUndecodable1 = Inl ?bad"
    by (simp add: toy_eval3 toyDecode_short)
  with panics_and_returned_errors [of toyUndecodable1 toyX "toyChain [toyGenesis]" "toySenate []" 0 "[]" "[]"]
  have c2: "Finalize toyX (toyChain [toyGenesis]) (toySenate []) toyUndecodable1 0 [] [] =
       Panics (PanicError (Some ?bad))"
    by blast
  have "Number toyBlock1 = Some 1 \<and> Uint64 1 \<le> 1
      \<and> decodeHeaderExtra toyNoSnapshotX toyBlock1 = Inr ?ex1
      \<and> newSnapshot toyNoSnapshotX (db (toySenate [])) = Inl ?missing"
    by (simp add: toy_eval3 toyNoSnapshotX_def)
  with panics_and_returned_errors [of toyBlock1 toyNoSnapshotX "toyChain [toyGenesis]" "toySenate []" 0 "[]" "[]"]
  have c3: "Finalize toyNoSnapshotX (toyChain [toyGenesis]) (toySenate []) toyBlock1 0 [] [] =
       Panics (PanicError (Some ?missing))"
    by blast
  have "Number toyBlock2 = Some 2 \<and> 1 < Uint64 2 \<and> decodeHeaderExtra toyX toyBlock2 = Inr ?ex2
      \<and> toyChain [toyUndecodable1] (ParentHash toyBlock2) (Uint64 2 - 1) = Some toyUndecodable1
      \<and> decodeHeaderExtra toyX toyUndecodable1 = Inl ?bad"
    by (simp add: toy_eval3 toy_eval2 toyDecode_short)
  with panics_and_returned_errors [of toyBlock2 toyX "toyChain [toyUndecodable1]" "toySenate []" 0 "[]" "[]"]
  have c4: "Finalize toyX (toyChain [toyUndecodable1]) (toySenate []) toyBlock2 0 [] [] =
       Panics (PanicError (Some ?bad))"
    by blast
  have "Number toyUndecodable1 = Some 1 \<and> Uint64 1 \<noteq> 0
      \<and> parentOf (toyChain [toyGenesis]) toyUndecodable1 [] = Some toyGenesis
      \<and> knownAncestor toyX toyUndecodable1 toyGenesis \<and> Time toyGenesis \<le> Time toyUndecodable1
      \<and> decodeHeaderExtra toyX toyUndecodable1 = Inl ?bad"
    by (simp add: parentOf_def knownAncestor_def toy_eval3 toyDecode_short)
  with panics_and_returned_errors [of toyUndecodable1 toyX "toyChain [toyGenesis]" "toySenate []" _ _ _ "[]"]
  have c5: "verifyCascadingFields toyX (toyChain [toyGenesis]) (toySenate []) toyUndecodable1 [] =
       Returns (Some ?bad, toySenate [])"
    by blast
  have "Number toyBlock2 = Some 2 \<and> Uint64 2 \<noteq> 0
      \<and> parentOf (toyChain [toyGenesis, toyBlock1]) toyBlock2 [] = Some toyBlock1
      \<and> knownAncestor toyX toyBlock2 toyBlock1 \<and> Time toyBlock1 \<le> Time toyBlock2
      \<and> decodeHeaderExtra toyX toyBlock2 = Inr ?ex2 \<and> \<not> isGenesis toyBlock1
      \<and> decodeHeaderExtra toyX toyBlock1 = Inr ?ex1
      \<and> chainConfigByHash toyX (toySenate []) (ConfigHash (HeaderExtra.Root ?ex1))
          = Inr \<lparr>Period = 3, Epoch = 30\<rparr>
      \<and> loadSnapshot toyX (db (toySenate [])) (HeaderExtra.Root ?ex1) = Inl ?missing"
    by (simp add: parentOf_def knownAncestor_def isGenesis_def toy_eval2)
  with panics_and_returned_errors [of toyBlock2 toyX "toyChain [toyGenesis, toyBlock1]" "toySenate []" _ _ _ "[]"]
  have c6: "verifyCascadingFields toyX (toyChain [toyGenesis, toyBlock1]) (toySenate []) toyBlock2 [] =
       Returns (Some ?missing, toySenate [])"
    by blast
  from short c1 c2 c3 c4 c5 c6 show ?thesis by simp
qed

subsection \<open>The diagnostic formatter lists every hash\<close>

text \<open>C8. For every root, the string \<open>Root2String\<close> produces contains the string of each
  of the eight component hashes: the format string names \<open>CandidateHash\<close> twice, and
  the nine arguments still cover all eight fields.\<close>

theorem Root2String_contains_every_hash:
  "sublist (HashString X (CandidateHash r)) (Root2String X r)
   \<and> sublist (HashString X (ConfigHash r)) (Root2String X r)
   \<and> sublist (HashString X (DeclareHash r)) (Root2String X r)
   \<and> sublist (HashString X (DelegateHash r)) (Root2String X r)
   \<and> sublist (HashString X (EpochHash r)) (Root2String X r)
   \<and> sublist (HashString X (MintCntHash r)) (Root2String X r)
   \<and> sublist (HashString X (ProposalHash r)) (Root2String X r)
   \<and> sublist (HashString X (VoteHash r)) (Root2String X r)"
  unfolding Root2String_def
  by (intro conjI;
      (rule sublist_append_rightI | rule sublist_order.order_refl | rule sublist_skip)+)

subsection \<open>Stateless checks\<close>

text \<open>C9. \<open>verifyHeader\<close> rejects, in this order and without looking at the chain, the
  parents or the store: a nil \<open>Number\<close> with \<open>ErrUnknownBlock\<close>; a \<open>Time\<close> above
  \<open>uint64(now)\<close> with \<open>ErrFutureBlock\<close>; an \<open>Extra\<close> shorter than 32 bytes with
  \<open>ErrMissingVanity\<close> and shorter than 32 + 65 bytes with \<open>ErrMissingSignature\<close>; a
  nonzero \<open>MixDigest\<close> with \<open>ErrInvalidMixDigest\<close>; an \<open>UncleHash\<close> other than the
  empty-uncle hash with \<open>ErrInvalidUncleHash\<close>. Only a header that passes them all
  reaches \<open>verifyCascadingFields\<close>.\<close>

theorem verifyHeader_stateless_checks:
  "(Number h = None
      \<longrightarrow> verifyHeader X chain now senate h ps = Returns (Some ErrUnknownBlock, senate))
   \<and> (Number h \<noteq> None \<and> Time h > now
      \<longrightarrow> verifyHeader X chain now senate h ps = Returns (Some ErrFutureBlock, senate))
   \<and> (Number h \<noteq> None \<and> Time h \<le> now \<and> length (Extra h) < 32
      \<longrightarrow> verifyHeader X chain now senate h ps = Returns (Some ErrMissingVanity, senate))
   \<and> (Number h \<noteq> None \<and> Time h \<le> now \<and> 32 \<le> length (Extra h) \<and> length (Extra h) < 32 + 65
      \<longrightarrow> verifyHeader X chain now senate h ps = Returns (Some ErrMissingSignature, senate))
   \<and> (Number h \<noteq> None \<and> Time h \<le> now \<and> 32 + 65 \<le> length (Extra h) \<and> MixDigest h \<noteq> 0
      \<longrightarrow> verifyHeader X chain now senate h ps = Returns (Some ErrInvalidMixDigest, senate))
   \<and> (Number h \<noteq> None \<and> Time h \<le> now \<and> 32 + 65 \<le> length (Extra h) \<and> MixDigest h = 0
        \<and> UncleHash h \<noteq> uncleHash X
      \<longrightarrow> verifyHeader X chain now senate h ps = Returns (Some ErrInvalidUncleHash, senate))
   \<and> (Number h \<noteq> None \<and> Time h \<le> now \<and> 32 + 65 \<le> length (Extra h) \<and> MixDigest h = 0
        \<and> UncleHash h = uncleHash X
      \<longrightarrow> verifyHeader X chain now senate h ps = verifyCascadingFields X chain senate h ps)"
  by (auto simp: verifyHeader_def extraVanity_def extraSeal_def)

theorem verifyHeader_stateless_checks_witness:
  "verifyHeader toyX (toyChain [toyGenesis]) 2000 (toySenate []) (toyBlock1\<lparr>Number := None\<rparr>) []
     = Returns (Some ErrUnknownBlock, toySenate [])
   \<and> verifyHeader toyX (toyChain [toyGenesis]) 1002 (toySenate []) toyBlock1 []
     = Returns (Some ErrFutureBlock, toySenate [])
   \<and> verifyHeader toyX (toyChain [toyGenesis]) 2000 (toySenate [])
        (toyBlock1\<lparr>Extra := replicate 31 0\<rparr>) []
     = Returns (Some ErrMissingVanity, toySenate [])
   \<and> verifyHeader toyX (toyChain [toyGenesis]) 2000 (toySenate [])
        (toyBlock1\<lparr>Extra := replicate 96 0\<rparr>) []
     = Returns (Some ErrMissingSignature, toySenate [])
   \<and> verifyHeader toyX (toyChain [toyGenesis]) 2000 (toySenate []) (toyBlock1\<lparr>MixDigest := 1\<rparr>) []
     = Returns (Some ErrInvalidMixDigest, toySenate [])
   \<and> verifyHeader toyX (toyChain [toyGenesis]) 2000 (toySenate []) (toyBlock1\<lparr>UncleHash := 8\<rparr>) []
     = Returns (Some ErrInvalidUncleHash, toySenate [])
   \<and> verifyHeader toyX (toyChain [toyGenesis]) 2000 (toySenate []) toyBlock1 []
     = Returns (None, \<lparr>config = \<lparr>Period = 3, Epoch = 30\<rparr>,
                      db = [zeroRoot\<lparr>MintCntHash := 1\<rparr>], signatures = [(1003, 1)]\<rparr>)"
proof -
  let ?v = "\<lambda>now h. verifyHeader toyX (toyChain [toyGenesis]) now (toySenate []) h []"
  have c1: "?v 2000 (toyBlock1\<lparr>Number := None\<rparr>) = Returns (Some ErrUnknownBlock, toySenate [])"
    using verifyHeader_stateless_checks [of "toyBlock1\<lparr>Number := None\<rparr>" toyX "toyChain [toyGenesis]" 2000 "toySenate []" "[]"]
    by simp
  have c2: "?v 1002 toyBlock1 = Returns (Some ErrFutureBlock, toySenate [])"
    using verifyHeader_stateless_checks [of toyBlock1 toyX "toyChain [toyGenesis]" 1002 "toySenate []" "[]"]
    by (simp add: toyBlock1_def toyHeader_def)
  have c3: "?v 2000 (toyBlock1\<lparr>Extra := replicate 31 0\<rparr>) = Returns (Some ErrMissingVanity, toySenate [])"
    using verifyHeader_stateless_checks [of "toyBlock1\<lparr>Extra := replicate 31 0\<rparr>" toyX "toyChain [toyGenesis]" 2000 "toySenate []" "[]"]
    by (simp add: toyBlock1_def toyHeader_def)
  have c4: "?v 2000 (toyBlock1\<lparr>Extra := replicate 96 0\<rparr>) = Returns (Some ErrMissingSignature, toySenate [])"
    using verifyHeader_stateless_checks [of "toyBlock1\<lparr>Extra := replicate 96 0\<rparr>" toyX "toyChain [toyGenesis]" 2000 "toySenate []" "[]"]
    by (simp add: toyBlock1_def toyHeader_def)
  have c5: "?v 2000 (toyBlock1\<lparr>MixDigest := 1\<rparr>) = Returns (Some ErrInvalidMixDigest, toySenate [])"
    using verifyHeader_stateless_checks [of "toyBlock1\<lparr>MixDigest := 1\<rparr>" toyX "toyChain [toyGenesis]" 2000 "toySenate []" "[]"]
    by (simp add: toyBlock1_def toyHeader_def)
  have c6: "?v 2000 (toyBlock1\<lparr>UncleHash := 8\<rparr>) = Returns (Some ErrInvalidUncleHash, toySenate [])"
    using verifyHeader_stateless_checks [of "toyBlock1\<lparr>UncleHash := 8\<rparr>" toyX "toyChain [toyGenesis]" 2000 "toySenate []" "[]"]
    by (simp add: toyBlock1_def toyHeader_def toyX_sel)
  have c7: "?v 2000 toyBlock1 = verifyCascadingFields toyX (toyChain [toyGenesis]) (toySenate []) toyBlock1 []"
    using verifyHeader_stateless_checks [of toyBlock1 toyX "toyChain [toyGenesis]" 2000 "toySenate []" "[]"]
    by (simp add: toyBlock1_def toyHeader_def toyX_sel)
  from c1 c2 c3 c4 c5 c6 c7 toyBlock1_accepted show ?thesis by simp
qed

subsection \<open>The first block\<close>

text \<open>C10. For a header whose parent is the genesis block (and which passes the ancestor,
  timestamp and decoding checks), \<open>verifyCascadingFields\<close> builds a fresh snapshot: a
  failure of \<open>newSnapshot\<close> is the result, and \<open>loadSnapshot\<close> and
  \<open>chainConfigByHash\<close> have no influence. Whatever (Epoch, EpochTime) the header
  declares, it is accepted as soon as the replayed root, the seal and the commit are
  right: the epoch-continuity check compares the header's extra with itself.\<close>

theorem verifyCascadingFields_genesis_parent:
  assumes "Number h = Some n" and "Uint64 n \<noteq> 0"
    and "parentOf chain h ps = Some parent" and "isGenesis parent"
    and "knownAncestor X h parent" and "Time parent \<le> Time h"
    and "decodeHeaderExtra X h = Inr ex"
  shows "(\<forall>e. newSnapshot X (db senate) = Inl e
            \<longrightarrow> verifyCascadingFields X chain senate h ps = Returns (Some e, senate))
       \<and> (\<forall>snap snap' s1 db'.
            newSnapshot X (db senate) = Inr snap \<and> snapApply X snap h ex = Inr snap'
            \<and> snapRoot X snap' = Inr (HeaderExtra.Root ex)
            \<and> verifySeal X senate (config senate) h (Some parent) = Returns (None, s1)
            \<and> Commit X snap' (HeaderExtra.Root ex) (db s1) = (None, db')
            \<longrightarrow> verifyCascadingFields X chain senate h ps = Returns (None, s1\<lparr>db := db'\<rparr>))
       \<and> (\<forall>load byHash.
            verifyCascadingFields (X\<lparr>loadSnapshot := load, chainConfigByHash := byHash\<rparr>)
              chain senate h ps
            = verifyCascadingFields X chain senate h ps)"
proof (intro conjI allI impI)
  fix e assume "newSnapshot X (db senate) = Inl e"
  with assms show "verifyCascadingFields X chain senate h ps = Returns (Some e, senate)"
    by (auto simp: verifyCascadingFields_def parentOf_def Let_def
          knownAncestor_def isGenesis_def split: option.splits if_splits)
next
  fix snap snap' s1 db'
  assume H: "newSnapshot X (db senate) = Inr snap \<and> snapApply X snap h ex = Inr snap'
            \<and> snapRoot X snap' = Inr (HeaderExtra.Root ex)
            \<and> verifySeal X senate (config senate) h (Some parent) = Returns (None, s1)
            \<and> Commit X snap' (HeaderExtra.Root ex) (db s1) = (None, db')"
  with assms have "isGenesis parent \<and> config senate = config senate \<and> newSnapshot X (db senate) = Inr snap
         \<or> \<not> isGenesis parent \<and> (\<exists>pex. decodeHeaderExtra X parent = Inr pex
                 \<and> chainConfigByHash X senate (ConfigHash (HeaderExtra.Root pex)) = Inr (config senate)
                 \<and> loadSnapshot X (db senate) (HeaderExtra.Root pex) = Inr snap
                 \<and> epochContinuous pex h ex)"
    by simp
  from vcf_at_root_check [OF assms(1,2,3,5,6,7) this, of snap' "HeaderExtra.Root ex"] H
  show "verifyCascadingFields X chain senate h ps = Returns (None, s1\<lparr>db := db'\<rparr>)"
    by simp
next
  fix load byHash
  from assms show "verifyCascadingFields (X\<lparr>loadSnapshot := load, chainConfigByHash := byHash\<rparr>)
              chain senate h ps
            = verifyCascadingFields X chain senate h ps"
    by (simp add: verifyCascadingFields_def parentOf_def Let_def verifySeal_load_irrelevant
          knownAncestor_def isGenesis_def
          split: option.splits if_splits
          cong: option.case_cong if_cong outcome.case_cong sum.case_cong prod.case_cong)
qed

theorem verifyCascadingFields_genesis_parent_witness:
  "Number toyBlock1OddEpoch = Some 1 \<and> Uint64 1 \<noteq> 0
   \<and> parentOf (toyChain [toyGenesis]) toyBlock1OddEpoch [] = Some toyGenesis
   \<and> isGenesis toyGenesis \<and> knownAncestor toyX toyBlock1OddEpoch toyGenesis
   \<and> Time toyGenesis \<le> Time toyBlock1OddEpoch
   \<and> decodeHeaderExtra toyX toyBlock1OddEpoch
       = Inr \<lparr>HeaderExtra.Root = zeroRoot\<lparr>MintCntHash := 1\<rparr>, Epoch = 7, EpochTime = 5, Log = []\<rparr>
   \<and> verifyCascadingFields toyX (toyChain [toyGenesis]) (toySenate []) toyBlock1OddEpoch [] =
       Returns (None, \<lparr>config = \<lparr>Period = 3, Epoch = 30\<rparr>,
                      db = [zeroRoot\<lparr>MintCntHash := 1\<rparr>], signatures = [(1003, 1)]\<rparr>)
   \<and> verifyCascadingFields
         (toyX\<lparr>loadSnapshot := \<lambda>d r. Inl (ErrExternal ''snapshot missing''),
               chainConfigByHash := \<lambda>s c. Inl (ErrExternal ''unknown config'')\<rparr>)
         (toyChain [toyGenesis]) (toySenate []) toyBlock1OddEpoch [] =
       Returns (None, \<lparr>config = \<lparr>Period = 3, Epoch = 30\<rparr>,
                      db = [zeroRoot\<lparr>MintCntHash := 1\<rparr>], signatures = [(1003, 1)]\<rparr>)"
proof -
  let ?ex = "\<lparr>HeaderExtra.Root = zeroRoot\<lparr>MintCntHash := 1\<rparr>, Epoch = 7, EpochTime = 5,
              Log = [] :: unit list\<rparr>"
  have n: "Number toyBlock1OddEpoch = Some 1" and nz: "Uint64 1 \<noteq> 0"
    and par: "parentOf (toyChain [toyGenesis]) toyBlock1OddEpoch [] = Some toyGenesis"
    and gen: "isGenesis toyGenesis" and anc: "knownAncestor toyX toyBlock1OddEpoch toyGenesis"
    and tm: "Time toyGenesis \<le> Time toyBlock1OddEpoch"
    and dec: "decodeHeaderExtra toyX toyBlock1OddEpoch = Inr ?ex"
    by (simp_all add: parentOf_def isGenesis_def knownAncestor_def toy_eval2)
  have steps: "newSnapshot toyX (db (toySenate [])) = Inr zeroRoot
      \<and> snapApply toyX zeroRoot toyBlock1OddEpoch ?ex = Inr (zeroRoot\<lparr>MintCntHash := 1\<rparr>)
      \<and> snapRoot toyX (zeroRoot\<lparr>MintCntHash := 1\<rparr>) = Inr (HeaderExtra.Root ?ex)
      \<and> verifySeal toyX (toySenate []) (config (toySenate [])) toyBlock1OddEpoch (Some toyGenesis)
          = Returns (None, \<lparr>config = \<lparr>Period = 3, Epoch = 30\<rparr>, db = [], signatures = [(1003, 1)]\<rparr>)
      \<and> Commit toyX (zeroRoot\<lparr>MintCntHash := 1\<rparr>) (HeaderExtra.Root ?ex)
            (db \<lparr>config = \<lparr>Period = 3, Epoch = 30\<rparr>, db = [], signatures = [(1003, 1)]\<rparr>)
          = (None, [zeroRoot\<lparr>MintCntHash := 1\<rparr>])"
    by (simp add: verifySeal_def toy_eval2)
  note inst = verifyCascadingFields_genesis_parent [OF n nz par gen anc tm dec, where senate = "toySenate []"]
  from inst steps
  have acc: "verifyCascadingFields toyX (toyChain [toyGenesis]) (toySenate []) toyBlock1OddEpoch [] =
       Returns (None, \<lparr>config = \<lparr>Period = 3, Epoch = 30\<rparr>, db = [], signatures = [(1003, 1)]\<rparr>
                        \<lparr>db := [zeroRoot\<lparr>MintCntHash := 1\<rparr>]\<rparr>)"
    by blast
  from inst have "verifyCascadingFields
         (toyX\<lparr>loadSnapshot := \<lambda>d r. Inl (ErrExternal ''snapshot missing''),
               chainConfigByHash := \<lambda>s c. Inl (ErrExternal ''unknown config'')\<rparr>)
         (toyChain [toyGenesis]) (toySenate []) toyBlock1OddEpoch []
       = verifyCascadingFields toyX (toyChain [toyGenesis]) (toySenate []) toyBlock1OddEpoch []"
    by blast
  with acc n nz par gen anc tm dec show ?thesis by simp
qed

end
